theory Spec2Isabelle
  imports Complex_Main
begin

section \<open>JavaScript values\<close>

text \<open>
  The two modules read configuration flags that may be absent, booleans, numbers or
  strings. A flag read through a chain \<^verbatim>\<open>a && a.b && a.b.c\<close> whose container is absent
  yields a falsy value, modelled as \<open>JUndefined\<close>. Numbers are modelled as real numbers:
  pixel arithmetic is the arithmetic of the source with rounding left out.
\<close>

datatype jsval = JUndefined | JBool bool | JNum real | JStr string

fun truthy :: "jsval \<Rightarrow> bool" where
  "truthy JUndefined = False"
| "truthy (JBool b) = b"
| "truthy (JNum r) = (r \<noteq> 0)"
| "truthy (JStr s) = (s \<noteq> [])"

datatype error = ReferenceError | TypeError

section \<open>The user layout \<^verbatim>\<open>gd.layout\<close>\<close>

text \<open>
  \<^verbatim>\<open>gd.layout.legend.inpixonCustomAttribute\<close>: the vendor flags. A nested object
  (\<^verbatim>\<open>boxsizing\<close>, \<^verbatim>\<open>symbolplacement\<close>, \<^verbatim>\<open>symbolstyle\<close>) is an option holding the one
  property the code reads from it.
\<close>

record inpixon =
  xtitletop :: jsval
  xtitlebottom :: jsval
  ytitleleft :: jsval
  ytitleright :: jsval
  radartitleclockwise :: jsval
  radartitlecounterclockwise :: jsval
  disableternaryatitle :: jsval
  disableternarybtitle :: jsval
  disableternaryctitle :: jsval
  boxsizing :: "jsval option"
  symbolplacement :: "jsval option"
  symbolstyle :: "jsval option"
  itemheight :: real

record layout_legend =
  inpixonCustomAttribute :: "inpixon option"

record layout_title =
  lt_text :: "string option"

record layout_axis =
  la_side :: jsval
  la_title :: "layout_title option"

record layout =
  lay_legend :: "layout_legend option"
  lay_xaxis :: "layout_axis option"
  lay_yaxis :: "layout_axis option"
  lay_polar_side :: jsval

text \<open>
  \<^verbatim>\<open>gd.layout && gd.layout.legend && gd.layout.legend.inpixonCustomAttribute &&
  gd.layout.legend.inpixonCustomAttribute.f\<close> (titles/index.js, lines 136-141 and 179-217)
\<close>

definition inpixonFlag :: "layout option \<Rightarrow> (inpixon \<Rightarrow> jsval) \<Rightarrow> jsval" where
  "inpixonFlag lay f =
     (case lay of None \<Rightarrow> JUndefined
      | Some l \<Rightarrow> (case lay_legend l of None \<Rightarrow> JUndefined
         | Some lg \<Rightarrow> (case inpixonCustomAttribute lg of None \<Rightarrow> JUndefined
            | Some ica \<Rightarrow> f ica)))"

text \<open>\<^verbatim>\<open>gd.layout && gd.layout.xaxis && gd.layout.xaxis.side\<close> (lines 135, 139)\<close>

definition axisSide :: "layout option \<Rightarrow> (layout \<Rightarrow> layout_axis option) \<Rightarrow> jsval" where
  "axisSide lay ax =
     (case lay of None \<Rightarrow> JUndefined
      | Some l \<Rightarrow> (case ax l of None \<Rightarrow> JUndefined | Some a \<Rightarrow> la_side a))"

text \<open>
  \<^verbatim>\<open>gd.layout && gd.layout.polar && gd.layout.polar.radialaxis &&
  gd.layout.polar.radialaxis.side\<close> (lines 180, 182); \<open>lay_polar_side\<close> holds the value of
  the chain inside \<^verbatim>\<open>gd.layout\<close>.
\<close>

definition polarSide :: "layout option \<Rightarrow> jsval" where
  "polarSide lay = (case lay of None \<Rightarrow> JUndefined | Some l \<Rightarrow> lay_polar_side l)"

section \<open>titles/index.js: the text of the title element (lines 144-226)\<close>

text \<open>
  The argument of the \<^verbatim>\<open>el.text(...)\<close> call that the block makes for the given title
  class, \<open>None\<close> when the class matches none of the tests and no call is made. \<open>txt\<close> is
  the local variable of \<^verbatim>\<open>draw\<close>.
\<close>

definition xtitleHidden :: "layout option \<Rightarrow> bool" where
  "xtitleHidden lay =
     (let xaxisSide = axisSide lay lay_xaxis;
          xtitleTop = inpixonFlag lay xtitletop;
          xtitleBottom = inpixonFlag lay xtitlebottom
      in (xtitleTop = JBool False \<and> xaxisSide = JStr ''top'') \<or>
         (xtitleBottom = JBool False \<and> xaxisSide = JStr ''bottom'') \<or>
         (xtitleBottom = JBool False \<and> xaxisSide = JStr ''both'') \<or>
         (xaxisSide = JStr ''''))"

definition ytitleHidden :: "layout option \<Rightarrow> bool" where
  "ytitleHidden lay =
     (let yaxisSide = axisSide lay lay_yaxis;
          ytitleLeft = inpixonFlag lay ytitleleft;
          ytitleRight = inpixonFlag lay ytitleright
      in (ytitleRight = JBool False \<and> yaxisSide = JStr ''right'') \<or>
         (ytitleLeft = JBool False \<and> yaxisSide = JStr ''left'') \<or>
         (ytitleLeft = JBool False \<and> yaxisSide = JStr ''both'') \<or>
         (yaxisSide = JStr ''''))"

definition polartitleHidden :: "layout option \<Rightarrow> bool" where
  "polartitleHidden lay =
     ((inpixonFlag lay radartitleclockwise = JBool False \<and>
         polarSide lay = JStr ''clockwise'') \<or>
      (inpixonFlag lay radartitlecounterclockwise = JBool False \<and>
         polarSide lay = JStr ''counterclockwise''))"

definition titleText :: "layout option \<Rightarrow> string \<Rightarrow> string \<Rightarrow> string option" where
  "titleText lay titleClass txt =
     (if titleClass = ''gtitle'' then Some txt
      else if titleClass = ''xtitle'' then
        (if xtitleHidden lay then Some '''' else Some txt)
      else if titleClass = ''ytitle'' then
        (if ytitleHidden lay then Some '''' else Some txt)
      else if titleClass = ''polartitle'' then
        (if polartitleHidden lay then Some '''' else Some txt)
      else if titleClass = ''atitle'' then
        (if inpixonFlag lay disableternaryatitle = JBool True then Some txt else Some '''')
      else if titleClass = ''btitle'' then
        (if inpixonFlag lay disableternarybtitle = JBool True then Some txt else Some '''')
      else if titleClass = ''ctitle'' then
        (if inpixonFlag lay disableternaryctitle = JBool True then Some txt else Some '''')
      else None)"

section \<open>titles/index.js: bounding boxes and the avoid option\<close>

record bbox =
  bb_left :: real
  bb_right :: real
  bb_top :: real
  bb_bottom :: real
  bb_width :: real
  bb_height :: real

text \<open>
  \<^verbatim>\<open>avoid.side\<close> is one of left, right, top and bottom (the comment at line 273).
\<close>

datatype side = SLeft | SRight | STop | SBottom

text \<open>\<^verbatim>\<open>bb[side]\<close>\<close>

fun edge :: "bbox \<Rightarrow> side \<Rightarrow> real" where
  "edge bb SLeft = bb_left bb"
| "edge bb SRight = bb_right bb"
| "edge bb STop = bb_top bb"
| "edge bb SBottom = bb_bottom bb"

text \<open>
  Modelled from the spec: the table \<^verbatim>\<open>OPPOSITE_SIDE\<close> of constants/alignment.js, which is
  not among the sources; it gives the opposite side of a side.
\<close>

fun OPPOSITE_SIDE :: "side \<Rightarrow> side" where
  "OPPOSITE_SIDE SLeft = SRight"
| "OPPOSITE_SIDE SRight = SLeft"
| "OPPOSITE_SIDE STop = SBottom"
| "OPPOSITE_SIDE SBottom = STop"

text \<open>
  Modelled from the spec: \<^verbatim>\<open>Lib.bBoxIntersect(a, b, pad)\<close> of lib/index.js, which is not
  among the sources: the two bounding boxes intersect within \<open>pad\<close> pixels, that is,
  they overlap on both axes once each is grown by \<open>pad\<close>.
\<close>

definition bBoxIntersect :: "bbox \<Rightarrow> bbox \<Rightarrow> real \<Rightarrow> bool" where
  "bBoxIntersect a b pad \<longleftrightarrow>
     bb_left a \<le> bb_right b + pad \<and> bb_left b \<le> bb_right a + pad \<and>
     bb_top a \<le> bb_bottom b + pad \<and> bb_top b \<le> bb_bottom a + pad"

text \<open>
  \<^verbatim>\<open>options.avoid\<close>. \<open>selection\<close> holds the bounding boxes \<^verbatim>\<open>Drawing.bBox(this)\<close> of
  the selected elements, in the order \<^verbatim>\<open>each\<close> visits them; a selection is truthy even
  when it is empty. An absent numeric property is \<open>None\<close>.
\<close>

record avoid =
  selection :: "bbox list option"
  av_side :: "side option"
  pad :: "real option"
  maxShift :: "real option"
  offsetLeft :: "real option"
  offsetTop :: "real option"

text \<open>\<^verbatim>\<open>options.avoid || {}\<close> (lines 55, 497, 570)\<close>

definition avoidOrEmpty :: "avoid option \<Rightarrow> avoid" where
  "avoidOrEmpty a =
     (case a of Some v \<Rightarrow> v
      | None \<Rightarrow> \<lparr>selection = None, av_side = None, pad = None, maxShift = None,
                  offsetLeft = None, offsetTop = None\<rparr>)"

text \<open>\<^verbatim>\<open>v || d\<close> for a number \<open>v\<close> that may be absent: zero and absent are falsy.\<close>

definition orElse :: "real option \<Rightarrow> real \<Rightarrow> real" where
  "orElse v d = (case v of None \<Rightarrow> d | Some r \<Rightarrow> if r \<noteq> 0 then r else d)"

text \<open>\<^verbatim>\<open>isNumeric(avoid.pad) ? avoid.pad : 2\<close>\<close>

definition padOf :: "avoid \<Rightarrow> real" where
  "padOf a = (case pad a of Some p \<Rightarrow> p | None \<Rightarrow> 2)"

text \<open>
  \<^verbatim>\<open>paperbb[side]\<close> for \<^verbatim>\<open>paperbb = {left: 0, top: 0, right: fullLayout.width, bottom:
  fullLayout.height}\<close>
\<close>

fun paperbb :: "real \<Rightarrow> real \<Rightarrow> side \<Rightarrow> real" where
  "paperbb w h SLeft = 0"
| "paperbb w h STop = 0"
| "paperbb w h SRight = w"
| "paperbb w h SBottom = h"

text \<open>
  The title's bounding box given the opposite offset of the avoided elements
  (lines 297-302, 457-462).
\<close>

definition offsetTitlebb :: "avoid \<Rightarrow> bbox \<Rightarrow> bbox" where
  "offsetTitlebb a titlebb =
     (let offsetLeft = orElse (offsetLeft a) 0;
          offsetTop = orElse (offsetTop a) 0
      in titlebb\<lparr>bb_left := bb_left titlebb - offsetLeft,
                 bb_right := bb_right titlebb - offsetLeft,
                 bb_top := bb_top titlebb - offsetTop,
                 bb_bottom := bb_bottom titlebb - offsetTop\<rparr>)"

text \<open>
  The body of the \<^verbatim>\<open>avoid.selection.each\<close> callback for one avoided element (lines
  307-312, 467-475): the shift that puts the title's back side \<open>pad\<close> pixels beyond the
  element's edge on \<open>avoid.side\<close>.
\<close>

definition clearance :: "real \<Rightarrow> side \<Rightarrow> real \<Rightarrow> bbox \<Rightarrow> bbox \<Rightarrow> real" where
  "clearance shiftSign s p titlebb avoidbb =
     shiftSign * (edge avoidbb s - edge titlebb (OPPOSITE_SIDE s)) + p"

fun avoidEach :: "real \<Rightarrow> side \<Rightarrow> real \<Rightarrow> bbox \<Rightarrow> bbox list \<Rightarrow> real \<Rightarrow> real" where
  "avoidEach shiftSign s p titlebb [] shift = shift"
| "avoidEach shiftSign s p titlebb (avoidbb # rest) shift =
     avoidEach shiftSign s p titlebb rest
       (if bBoxIntersect titlebb avoidbb p
        then max shift (clearance shiftSign s p titlebb avoidbb)
        else shift)"

section \<open>titles/index.js: transforms\<close>

text \<open>
  A \<^verbatim>\<open>transform\<close> attribute is \<open>None\<close> when it is null (the attribute is removed) and
  otherwise the list of the transforms its string concatenates.
  \<open>Rotate r x y\<close> is \<^verbatim>\<open>rotate(r,x,y)\<close> and \<open>Translate x y\<close> is what \<^verbatim>\<open>strTranslate(x, y)\<close>
  writes.
\<close>

datatype tform = Rotate real real real | Translate real real

type_synonym tattr = "tform list option"

definition strTranslate :: "real \<Rightarrow> real \<Rightarrow> tform list" where
  "strTranslate x y = [Translate x y]"

section \<open>titles/index.js: scootTitle (lines 267-327)\<close>

text \<open>
  \<open>shiftSign\<close>, \<open>maxshift\<close> and \<open>shift\<close> are the local variables of the function;
  \<open>sc_transform\<close> is the \<^verbatim>\<open>transform\<close> attribute the title group is left with.
\<close>

record scoot =
  sc_maxshift :: real
  sc_shift :: real
  sc_transform :: tattr

definition shiftSign :: "side \<Rightarrow> real" where
  "shiftSign s = (if s = SLeft \<or> s = STop then - 1 else 1)"

fun shiftTemplate :: "side \<Rightarrow> real \<Rightarrow> real \<times> real" where
  "shiftTemplate SLeft shift = (- shift, 0)"
| "shiftTemplate SRight shift = (shift, 0)"
| "shiftTemplate STop shift = (0, - shift)"
| "shiftTemplate SBottom shift = (0, shift)"

text \<open>
  \<open>scootTitle avoid txt width height titlebb\<close>: \<open>width\<close> and \<open>height\<close> are those of
  \<^verbatim>\<open>fullLayout\<close>, \<open>titlebb\<close> is \<^verbatim>\<open>Drawing.bBox(titleGroup.node())\<close>. The result is \<open>None\<close>
  when the guard of line 270 fails and the title group is left as it was.
\<close>

definition scootTitle :: "avoid \<Rightarrow> string \<Rightarrow> real \<Rightarrow> real \<Rightarrow> bbox \<Rightarrow> scoot option" where
  "scootTitle a txt width height titlebb =
     (case (selection a, av_side a) of
        (Some sel, Some s) \<Rightarrow>
          if txt = [] then None
          else
            let sg = shiftSign s;
                p = padOf a;
                maxshift = orElse (maxShift a) (sg * (paperbb width height s - edge titlebb s));
                shift = (if maxshift < 0 then maxshift
                         else min maxshift (avoidEach sg s p (offsetTitlebb a titlebb) sel 0))
            in Some \<lparr>sc_maxshift = maxshift, sc_shift = shift,
                      sc_transform =
                        (if shift > 0 \<or> maxshift < 0
                         then Some (strTranslate (fst (shiftTemplate s shift))
                                                 (snd (shiftTemplate s shift)))
                         else None)\<rparr>
      | _ \<Rightarrow> None)"

section \<open>titles/index.js: drawTitle (lines 237-265)\<close>

text \<open>
  \<^verbatim>\<open>options.transform\<close>: \<open>rotate\<close> in degrees and \<open>offset\<close> in pixels, each \<open>None\<close> when
  absent. The string \<^verbatim>\<open>"-90"\<close> of lines 401 and 544 is the number it denotes: both
  concatenate to the same attribute text.
\<close>

record transformOpt =
  tr_rotate :: "real option"
  tr_offset :: "real option"

text \<open>\<^verbatim>\<open>options.attributes\<close>: x, y and text-anchor.\<close>

record attributes =
  at_x :: real
  at_y :: real
  at_anchor :: string

text \<open>
  A colour, given by what \<^verbatim>\<open>Color.rgb\<close> and \<^verbatim>\<open>Color.opacity\<close> (components/color, not
  among the sources) return for it.
\<close>

record color =
  Color_rgb :: string
  Color_opacity :: real

text \<open>
  The variables of \<^verbatim>\<open>draw\<close> that the nested function \<^verbatim>\<open>drawTitle\<close> reads. They are
  declared with \<^verbatim>\<open>var\<close> in the body of \<^verbatim>\<open>draw\<close>, so a later assignment or
  redeclaration anywhere in that body changes what a later call of \<^verbatim>\<open>drawTitle\<close> sees.
\<close>

record closure =
  transform :: "transformOpt option"
  attributes :: attributes
  fontFamily :: string
  fontSize :: real
  fontColor :: color
  opacity :: real

text \<open>
  What a text element is given: its \<^verbatim>\<open>transform\<close> attribute, the styles font-family,
  font-size (a number of px), fill and opacity, and the attributes x, y and text-anchor.
  The constant style font-weight (\<^verbatim>\<open>Plots.fontWeight\<close>) is left out.
\<close>

record textStyle =
  ts_transform :: tattr
  ts_font_family :: string
  ts_font_size :: real
  ts_fill :: string
  ts_opacity :: real
  ts_x :: real
  ts_y :: real
  ts_anchor :: string

text \<open>
  \<^verbatim>\<open>d3.round(x, n)\<close> is \<^verbatim>\<open>n ? Math.round(x * (n = Math.pow(10, n))) / n : Math.round(x)\<close>,
  and \<^verbatim>\<open>Math.round\<close> rounds a half up.
\<close>

definition d3_round :: "real \<Rightarrow> nat \<Rightarrow> real" where
  "d3_round x n =
     (if n \<noteq> 0 then of_int \<lfloor>x * 10 ^ n + 1 / 2\<rfloor> / 10 ^ n else of_int \<lfloor>x + 1 / 2\<rfloor>)"

text \<open>A number that may be absent is truthy when it is present and not zero.\<close>

definition present :: "real option \<Rightarrow> bool" where
  "present v = (case v of None \<Rightarrow> False | Some r \<Rightarrow> r \<noteq> 0)"

definition drawTitle :: "closure \<Rightarrow> textStyle" where
  "drawTitle c =
     (let transformVal =
            (case transform c of
               Some t \<Rightarrow>
                 Some ((if present (tr_rotate t)
                        then [Rotate (the (tr_rotate t)) (at_x (attributes c)) (at_y (attributes c))]
                        else []) @
                       (if present (tr_offset t) then strTranslate 0 (the (tr_offset t)) else []))
             | None \<Rightarrow> None)
      in \<lparr>ts_transform = transformVal,
          ts_font_family = fontFamily c,
          ts_font_size = d3_round (fontSize c) 2,
          ts_fill = Color_rgb (fontColor c),
          ts_opacity = opacity c * Color_opacity (fontColor c),
          ts_x = at_x (attributes c),
          ts_y = at_y (attributes c),
          ts_anchor = at_anchor (attributes c)\<rparr>)"

section \<open>titles/index.js: the axis-side branches of draw (lines 330-636)\<close>

text \<open>
  \<^verbatim>\<open>gd._fullLayout.xaxis\<close> and \<^verbatim>\<open>gd._fullLayout.yaxis\<close>. \<open>ax_title_standoff\<close> is
  \<open>Some\<close> when \<^verbatim>\<open>ax.title\<close> has an own property \<^verbatim>\<open>standoff\<close>; \<open>ax_linewidth\<close> and
  \<open>ax_position\<close> are 0 when absent, which is the value the code gives them then.
\<close>

record anchor =
  an_offset :: real
  an_length :: real

record full_axis =
  ax_id :: string
  ax_title_font_size :: real
  ax_title_standoff :: "real option"
  ax_depth :: real
  ax_type :: string
  ax_ticks :: string
  ax_ticklen :: real
  ax_linewidth :: real
  ax_side :: string
  ax_showticklabels :: bool
  ax_anchor :: string
  ax_anchorAxis :: "anchor option"
  ax_position :: real
  ax_offset :: real
  ax_length :: real

text \<open>\<^verbatim>\<open>gd._fullLayout._size\<close>\<close>

record plotsize =
  gs_t :: real
  gs_h :: real
  gs_l :: real
  gs_w :: real

text \<open>
  Lines 345-378 and 498-531 (the same text twice): the title standoff. The first
  branch calls \<^verbatim>\<open>approxTitleDepth\<close>, which the module neither defines nor imports:
  evaluating the call raises a ReferenceError.
\<close>

definition titleStandoff :: "full_axis \<Rightarrow> string \<Rightarrow> error + real" where
  "titleStandoff ax axLetter =
     (let fontSize = ax_title_font_size ax in
      if ax_title_standoff ax \<noteq> None then Inl ReferenceError
      else
        let isInside = False;
            standoff =
              (if ax_type ax = ''multicategory'' then ax_depth ax
               else
                 let offsetBase =
                       (if isInside
                        then 0.5 * fontSize +
                             (if ax_ticks ax = ''outside'' then ax_ticklen ax else 0)
                        else 1.5 * fontSize)
                 in 10 + offsetBase + (if ax_linewidth ax \<noteq> 0 then ax_linewidth ax - 1 else 0))
        in Inr (if isInside then standoff
                else if axLetter = ''x'' then
                  standoff +
                    (if ax_side ax = ''top''
                     then fontSize * (if ax_showticklabels ax then 1 else 0)
                     else fontSize * (if ax_showticklabels ax then 1.5 else 0.5))
                else
                  standoff +
                    (if ax_side ax = ''right''
                     then fontSize * (if ax_showticklabels ax then 1 else 0.5)
                     else fontSize * (if ax_showticklabels ax then 0.5 else 0))))"

text \<open>Lines 379-391: the anchor axis of the x-axis branch.\<close>

definition xAnchorAxis :: "full_axis \<Rightarrow> string \<Rightarrow> plotsize \<Rightarrow> anchor option" where
  "xAnchorAxis ax axLetter gs =
     (if ax_anchor ax \<noteq> ''free'' then ax_anchorAxis ax
      else if axLetter = ''x'' then
        Some \<lparr>an_offset = gs_t gs + (1 - ax_position ax) * gs_h gs, an_length = 0\<rparr>
      else if axLetter = ''y'' then
        Some \<lparr>an_offset = gs_l gs + ax_position ax * gs_w gs, an_length = 0\<rparr>
      else None)"

text \<open>Lines 532-539: the anchor axis of the y-axis branch.\<close>

definition yAnchorAxis :: "full_axis \<Rightarrow> string \<Rightarrow> plotsize \<Rightarrow> anchor option" where
  "yAnchorAxis ax axLetter gs =
     (if ax_anchor ax \<noteq> ''free'' then ax_anchorAxis ax
      else if axLetter = ''y'' then
        Some \<lparr>an_offset = gs_l gs + ax_position ax * gs_w gs, an_length = 0\<rparr>
      else None)"

text \<open>
  Lines 425-481: the avoidance of the x-axis branch, on the group g-xtitleboth.
  \<open>xside\<close> is \<^verbatim>\<open>gd.layout.xaxis.side\<close>, \<open>titlebb\<close> the bounding box of that group. The
  result is \<open>None\<close> when the guard of line 427 fails.
\<close>

definition xbothAvoid ::
  "avoid \<Rightarrow> string \<Rightarrow> jsval \<Rightarrow> real \<Rightarrow> real \<Rightarrow> bbox \<Rightarrow> scoot option" where
  "xbothAvoid a txt xside width height titlebb =
     (case (selection a, av_side a) of
        (Some sel, Some s) \<Rightarrow>
          if txt = [] then None
          else
            let sg = (if s = SLeft \<or> xside = JStr ''both'' then - 1 else 1);
                p = padOf a;
                maxshift = orElse (maxShift a)
                             (sg * (paperbb width height STop - bb_height titlebb));
                shift = (if maxshift < 0 then maxshift
                         else min maxshift (avoidEach sg s p (offsetTitlebb a titlebb) sel 0))
            in Some \<lparr>sc_maxshift = maxshift, sc_shift = shift,
                      sc_transform = Some (strTranslate shift maxshift)\<rparr>
      | _ \<Rightarrow> None)"

text \<open>
  Lines 569-635: the avoidance of the y-axis branch, on the group g-ytitleboth. The
  callback of lines 611-618 makes no intersection test. The result is the value written
  to the group's \<^verbatim>\<open>transform\<close> attribute, \<open>None\<close> when the guard of line 573 fails and
  nothing is written.
\<close>

fun ybothEach :: "real \<Rightarrow> bbox \<Rightarrow> bbox list \<Rightarrow> real \<Rightarrow> real" where
  "ybothEach sg titlebb [] shift = shift"
| "ybothEach sg titlebb (avoidbb # rest) shift =
     ybothEach sg titlebb rest (max shift (sg * (bb_right avoidbb - bb_top titlebb)))"

definition ybothAvoid :: "avoid \<Rightarrow> string \<Rightarrow> real \<Rightarrow> real \<Rightarrow> bbox \<Rightarrow> tattr option" where
  "ybothAvoid a txt width height titlebb =
     (case (selection a, av_side a) of
        (Some sel, Some s) \<Rightarrow>
          if txt = [] then None
          else if s = SLeft then
            let sg = shiftSign s;
                maxshift = orElse (maxShift a) (sg * (paperbb width height s - edge titlebb s));
                shift = (if maxshift < 0 then maxshift
                         else min maxshift (ybothEach sg (offsetTitlebb a titlebb) sel 0))
            in Some (if shift > 0 \<or> maxshift < 0
                     then Some (strTranslate (fst (shiftTemplate SRight shift))
                                             (snd (shiftTemplate SRight shift)))
                     else None)
          else Some None
      | _ \<Rightarrow> None)"

section \<open>titles/index.js: draw (lines 50-675)\<close>

text \<open>
  The inputs of a call \<^verbatim>\<open>draw(gd, titleClass, options)\<close>.
  \<^item> \<open>title_txt\<close> is the local variable \<^verbatim>\<open>txt\<close> and \<open>opacity vars\<close> the local variable
    \<^verbatim>\<open>opacity\<close> after lines 62-95 (the placeholder test and \<^verbatim>\<open>Lib.templateString\<close> are
    not modelled); \<open>editable\<close> is the truth value of \<^verbatim>\<open>gd._context.edits[editAttr]\<close>.
  \<^item> \<open>vars\<close> holds \<^verbatim>\<open>options.transform\<close>, \<^verbatim>\<open>options.attributes\<close> and the font of the
    title as lines 56-70 read them.
  \<^item> \<open>containerGroup\<close> tells whether \<^verbatim>\<open>options.containerGroup\<close> is given. When it is,
    lines 99-116 leave \<^verbatim>\<open>group_xboth\<close> and \<^verbatim>\<open>group_yboth\<close> undefined.
  \<^item> \<open>bb_title\<close>, \<open>bb_xboth\<close> and \<open>bb_yboth\<close> are what \<^verbatim>\<open>Drawing.bBox\<close> measures for the
    title group, g-xtitleboth and g-ytitleboth.
\<close>

record draw_in =
  titleClass :: string
  title_txt :: string
  editable :: bool
  placeholder :: string
  vars :: closure
  avoid_opt :: "avoid option"
  containerGroup :: bool
  gd_layout :: "layout option"
  fl_width :: real
  fl_height :: real
  fl_xaxis :: "full_axis option"
  fl_yaxis :: "full_axis option"
  fl_size :: plotsize
  bb_title :: bbox
  bb_xboth :: bbox
  bb_yboth :: bbox

text \<open>
  The second title of an axis: the text element of g-xtitleboth or g-ytitleboth with
  its text and styles, and what the branch writes to the \<^verbatim>\<open>transform\<close> attribute of the
  group (\<open>None\<close> when it writes nothing).
\<close>

record bothTitle =
  bt_text :: string
  bt_style :: textStyle
  bt_group :: "tattr option"

text \<open>
  What a completed call leaves: the text of the title element (\<open>None\<close> when no
  \<^verbatim>\<open>el.text\<close> call was made), what \<^verbatim>\<open>drawTitle\<close> gave the element, what \<^verbatim>\<open>scootTitle\<close>
  did to the title group, the second titles of the branches entered, and the variables
  the handlers registered at lines 655-670 will see.
\<close>

record draw_out =
  out_text :: "string option"
  out_el :: textStyle
  out_group :: "scoot option"
  out_xboth :: "bothTitle option"
  out_yboth :: "bothTitle option"
  out_vars :: closure

text \<open>\<^verbatim>\<open>gd.layout.xaxis.title.text\<close> (lines 407, 550), for an axis that is present.\<close>

definition layoutTitleText :: "layout_axis option \<Rightarrow> error + string" where
  "layoutTitleText a =
     (case a of None \<Rightarrow> Inl TypeError
      | Some ax \<Rightarrow> (case la_title ax of None \<Rightarrow> Inl TypeError
          | Some t \<Rightarrow> Inr (case lt_text t of None \<Rightarrow> [] | Some u \<Rightarrow> u)))"

definition layoutAxis :: "layout option \<Rightarrow> (layout \<Rightarrow> layout_axis option) \<Rightarrow> layout_axis option" where
  "layoutAxis lay ax = (case lay of None \<Rightarrow> None | Some l \<Rightarrow> ax l)"

text \<open>
  Lines 336-481, entered when \<^verbatim>\<open>xaxisSide\<close> is both, bottom or top. The result is the
  second x title and the variables as the branch leaves them.
\<close>

definition xbothBranch :: "draw_in \<Rightarrow> closure \<Rightarrow> error + bothTitle \<times> closure" where
  "xbothBranch i c =
     (case fl_xaxis i of None \<Rightarrow> Inl TypeError
      | Some ax \<Rightarrow>
        let axLetter = take 1 (ax_id ax);
            c1 = c\<lparr>fontSize := ax_title_font_size ax\<rparr>
        in (case titleStandoff ax axLetter of Inl e \<Rightarrow> Inl e
           | Inr standoff \<Rightarrow>
             (case xAnchorAxis ax axLetter (fl_size i) of None \<Rightarrow> Inl TypeError
              | Some anchorAxis \<Rightarrow>
                let x = (if axLetter = ''x'' then ax_offset ax + ax_length ax / 2
                         else an_offset anchorAxis + standoff);
                    y = (if axLetter = ''x'' then an_offset anchorAxis - standoff
                         else ax_offset ax + ax_length ax / 2);
                    c2 = (if axLetter = ''x'' then c1
                          else c1\<lparr>transform := Some \<lparr>tr_rotate = Some (- 90), tr_offset = Some 0\<rparr>\<rparr>);
                    xaxisSide = axisSide (gd_layout i) lay_xaxis;
                    xtitleTop = inpixonFlag (gd_layout i) xtitletop
                in if containerGroup i then Inl TypeError
                   else
                     (case (if truthy xtitleTop \<and> xaxisSide = JStr ''both''
                           then layoutTitleText (layoutAxis (gd_layout i) lay_xaxis)
                           else Inr []) of
                       Inl e \<Rightarrow> Inl e
                     | Inr t \<Rightarrow>
                        Inr (\<lparr>bt_text = t,
                              bt_style =
                                \<lparr>ts_transform = None,
                                 ts_font_family = fontFamily c2,
                                 ts_font_size = d3_round (fontSize c2) 2,
                                 ts_fill = Color_rgb (fontColor c2),
                                 ts_opacity =
                                   (if xaxisSide = JStr ''both''
                                    then opacity c2 * Color_opacity (fontColor c2) else 0),
                                 ts_x = x, ts_y = y,
                                 ts_anchor = at_anchor (attributes c2)\<rparr>,
                              bt_group =
                                map_option sc_transform
                                  (xbothAvoid (avoidOrEmpty (avoid_opt i)) (title_txt i) xaxisSide
                                     (fl_width i) (fl_height i) (bb_xboth i))\<rparr>,
                             c2)))))"

text \<open>
  Lines 489-635, entered when \<^verbatim>\<open>yaxisSide\<close> is both, left or right. Line 544 redeclares
  \<^verbatim>\<open>transform\<close> in the body of \<^verbatim>\<open>draw\<close>, which assigns the variable of line 57.
\<close>

definition ybothBranch :: "draw_in \<Rightarrow> closure \<Rightarrow> error + bothTitle \<times> closure" where
  "ybothBranch i c =
     (case fl_yaxis i of None \<Rightarrow> Inl TypeError
      | Some ax \<Rightarrow>
        let axLetter = take 1 (ax_id ax);
            c1 = c\<lparr>fontSize := ax_title_font_size ax\<rparr>
        in (case titleStandoff ax axLetter of Inl e \<Rightarrow> Inl e
           | Inr standoff \<Rightarrow>
             (case yAnchorAxis ax axLetter (fl_size i) of None \<Rightarrow> Inl TypeError
              | Some anchorAxis \<Rightarrow>
                let y = ax_offset ax + ax_length ax / 2;
                    x = an_offset anchorAxis + an_length anchorAxis + standoff;
                    c2 = c1\<lparr>transform := Some \<lparr>tr_rotate = Some (- 90), tr_offset = Some 0\<rparr>\<rparr>;
                    yaxisSide = axisSide (gd_layout i) lay_yaxis;
                    ytitleRight = inpixonFlag (gd_layout i) ytitleright
                in if containerGroup i then Inl TypeError
                   else
                     (case (if truthy ytitleRight \<and> yaxisSide = JStr ''both''
                           then layoutTitleText (layoutAxis (gd_layout i) lay_yaxis)
                           else Inr []) of
                       Inl e \<Rightarrow> Inl e
                     | Inr t \<Rightarrow>
                        Inr (\<lparr>bt_text = t,
                              bt_style =
                                \<lparr>ts_transform = Some [Rotate (- 270) x y],
                                 ts_font_family = fontFamily c2,
                                 ts_font_size = d3_round (fontSize c2) 2,
                                 ts_fill = Color_rgb (fontColor c2),
                                 ts_opacity =
                                   (if yaxisSide = JStr ''both''
                                    then opacity c2 * Color_opacity (fontColor c2) else 0),
                                 ts_x = x, ts_y = y,
                                 ts_anchor = at_anchor (attributes c2)\<rparr>,
                              bt_group =
                                ybothAvoid (avoidOrEmpty (avoid_opt i)) (title_txt i)
                                  (fl_width i) (fl_height i) (bb_yboth i)\<rparr>,
                             c2)))))"

definition entersX :: "draw_in \<Rightarrow> bool" where
  "entersX i =
     (let xaxisSide = axisSide (gd_layout i) lay_xaxis
      in xaxisSide = JStr ''both'' \<or> xaxisSide = JStr ''bottom'' \<or> xaxisSide = JStr ''top'')"

definition entersY :: "draw_in \<Rightarrow> bool" where
  "entersY i =
     (let yaxisSide = axisSide (gd_layout i) lay_yaxis
      in yaxisSide = JStr ''both'' \<or> yaxisSide = JStr ''left'' \<or> yaxisSide = JStr ''right'')"

text \<open>
  The call. \<open>Inr None\<close> is the early return of line 229, where no title element exists;
  \<open>Inl e\<close> is an exception that leaves \<^verbatim>\<open>draw\<close>. \<^verbatim>\<open>Lib.syncOrAsync\<close> calls \<^verbatim>\<open>drawTitle\<close>
  at once, before the axis-side branches run; \<^verbatim>\<open>scootTitle\<close> reads only variables that
  the branches do not change.
\<close>

definition draw :: "draw_in \<Rightarrow> error + draw_out option" where
  "draw i =
     (let elShouldExist = (title_txt i \<noteq> [] \<or> editable i) in
      if \<not> elShouldExist then Inr None
      else
        let el = drawTitle (vars i);
            grp = scootTitle (avoidOrEmpty (avoid_opt i)) (title_txt i)
                    (fl_width i) (fl_height i) (bb_title i)
        in case (if entersX i then map_sum id (\<lambda>(b, c). (Some b, c)) (xbothBranch i (vars i))
                 else Inr (None, vars i)) of
             Inl e \<Rightarrow> Inl e
           | Inr (xb, c1) \<Rightarrow>
             (case (if entersY i then map_sum id (\<lambda>(b, c). (Some b, c)) (ybothBranch i c1)
                    else Inr (None, c1)) of
                Inl e \<Rightarrow> Inl e
              | Inr (yb, c2) \<Rightarrow>
                  Inr (Some
                    \<lparr>out_text = (if editable i \<and> title_txt i = [] then Some (placeholder i)
                                  else titleText (gd_layout i) (titleClass i) (title_txt i)),
                     out_el = el,
                     out_group = grp,
                     out_xboth = xb,
                     out_yboth = yb,
                     out_vars = (if editable i \<and> title_txt i = [] then c2\<lparr>opacity := 0\<rparr> else c2)\<rparr>)))"

text \<open>
  The handler of the cancel event (lines 663-666) lays the title out again:
  \<^verbatim>\<open>titleLayout\<close> calls \<^verbatim>\<open>drawTitle\<close>, which reads the variables as \<^verbatim>\<open>draw\<close> left them.
  The handlers are registered only for an editable title (line 651).
\<close>

definition onCancel :: "draw_out \<Rightarrow> textStyle" where
  "onCancel out = drawTitle (out_vars out)"

text \<open>
  A sample call, used to run the model: the plot title of an editable 700 by 450 plot
  whose layout asks for the x-axis on both sides and the y-axis on the left.
\<close>

definition sampleFlags :: inpixon where
  "sampleFlags =
     \<lparr>xtitletop = JBool True, xtitlebottom = JBool True,
      ytitleleft = JBool True, ytitleright = JBool True,
      radartitleclockwise = JUndefined, radartitlecounterclockwise = JUndefined,
      disableternaryatitle = JUndefined, disableternarybtitle = JUndefined,
      disableternaryctitle = JUndefined,
      boxsizing = None, symbolplacement = None, symbolstyle = None, itemheight = 30\<rparr>"

definition sampleLayout :: layout where
  "sampleLayout =
     \<lparr>lay_legend = Some \<lparr>inpixonCustomAttribute = Some sampleFlags\<rparr>,
      lay_xaxis = Some \<lparr>la_side = JStr ''both'', la_title = Some \<lparr>lt_text = Some ''Month''\<rparr>\<rparr>,
      lay_yaxis = Some \<lparr>la_side = JStr ''left'', la_title = Some \<lparr>lt_text = Some ''Units''\<rparr>\<rparr>,
      lay_polar_side = JUndefined\<rparr>"

definition sampleAxis :: full_axis where
  "sampleAxis =
     \<lparr>ax_id = ''x'', ax_title_font_size = 14, ax_title_standoff = None, ax_depth = 30,
      ax_type = ''linear'', ax_ticks = ''outside'', ax_ticklen = 5, ax_linewidth = 1,
      ax_side = ''bottom'', ax_showticklabels = True, ax_anchor = ''y'',
      ax_anchorAxis = Some \<lparr>an_offset = 100, an_length = 270\<rparr>,
      ax_position = 0, ax_offset = 80, ax_length = 540\<rparr>"

definition sampleCall :: draw_in where
  "sampleCall =
     \<lparr>titleClass = ''gtitle'', title_txt = ''Sales'', editable = True,
      placeholder = ''Click to enter Plot title'',
      vars = \<lparr>transform = None,
              attributes = \<lparr>at_x = 350, at_y = 50, at_anchor = ''middle''\<rparr>,
              fontFamily = ''Arial'', fontSize = 17,
              fontColor = \<lparr>Color_rgb = ''rgb(68, 68, 68)'', Color_opacity = 1\<rparr>,
              opacity = 1\<rparr>,
      avoid_opt = None, containerGroup = False,
      gd_layout = Some sampleLayout,
      fl_width = 700, fl_height = 450,
      fl_xaxis = Some sampleAxis,
      fl_yaxis = Some (sampleAxis\<lparr>ax_id := ''y'', ax_side := ''left'', ax_anchor := ''x'',
                         ax_anchorAxis := Some \<lparr>an_offset = 80, an_length = 540\<rparr>,
                         ax_offset := 100, ax_length := 270\<rparr>),
      fl_size = \<lparr>gs_t = 100, gs_h = 270, gs_l = 80, gs_w = 540\<rparr>,
      bb_title = \<lparr>bb_left = 320, bb_right = 380, bb_top = 35, bb_bottom = 55,
                  bb_width = 60, bb_height = 20\<rparr>,
      bb_xboth = \<lparr>bb_left = 320, bb_right = 380, bb_top = 40, bb_bottom = 56,
                  bb_width = 60, bb_height = 16\<rparr>,
      bb_yboth = \<lparr>bb_left = 650, bb_right = 666, bb_top = 200, bb_bottom = 260,
                  bb_width = 16, bb_height = 60\<rparr>\<rparr>"

section \<open>legend/style.js: data\<close>

text \<open>
  The second source file is the legend's style module, \<^verbatim>\<open>style(s, gd, legend)\<close>.
  \<open>legend\<close> is the object the caller passes (or \<^verbatim>\<open>fullLayout.legend\<close>): \<open>lg_width\<close> is
  \<^verbatim>\<open>legend._width\<close>, \<open>hidetoggle\<close> the truth value of \<^verbatim>\<open>legend.hidetoggle\<close>.
\<close>

datatype valign = VTop | VMiddle | VBottom

record legend =
  itemsizing :: string
  itemwidth :: real
  lg_valign :: valign
  lg_width :: real
  hidetoggle :: bool

text \<open>
  What the module reads of \<^verbatim>\<open>gd\<close>: \<^verbatim>\<open>gd.layout.legend\<close>, \<^verbatim>\<open>gd._fullLayout.width\<close>,
  \<^verbatim>\<open>gd.data[0].mode\<close> and \<^verbatim>\<open>gd.data[0].contours && gd.data[0].contours.coloring\<close>.
\<close>

record style_gd =
  sg_legend :: "layout_legend option"
  sg_fullWidth :: real
  sg_mode :: jsval
  sg_coloring :: jsval

text \<open>
  A legend item \<^verbatim>\<open>d\<close>: \<^verbatim>\<open>d[0].trace\<close>, \<^verbatim>\<open>d[0].lineHeight\<close> and \<^verbatim>\<open>d[0].height\<close> (0 when
  absent). \<open>tr_visible\<close> is the truth value of \<^verbatim>\<open>trace.visible\<close>; \<open>tr_hasLines\<close>,
  \<open>tr_hasMarkers\<close> and \<open>tr_hasText\<close> are the truth values of what the helpers of
  traces/scatter/subtypes, which are not among the sources, return for the trace, and
  \<open>tr_reversescale\<close> is the truth value of \<^verbatim>\<open>extractOpts(trace).reversescale\<close>
  (colorscale/helpers, not among the sources).
\<close>

record contours =
  coloring :: jsval
  ct_type :: jsval
  ct_operation :: jsval
  showlines :: bool

record trace =
  tr_type :: string
  tr_visible :: bool
  tr_fill :: jsval
  tr_contours :: "contours option"
  tr_hasLines :: bool
  tr_hasMarkers :: bool
  tr_hasText :: bool
  tr_reversescale :: bool

record item =
  it_trace :: trace
  lineHeight :: real
  it_height :: real

text \<open>
  \<^verbatim>\<open>gd.layout.legend && gd.layout.legend.inpixonCustomAttribute &&
  gd.layout.legend.inpixonCustomAttribute.f && gd.layout.legend.inpixonCustomAttribute.f.g\<close>
  (lines 63-68, 73-78, 111-114, 156-167, 280-285)
\<close>

definition nestedFlag :: "style_gd \<Rightarrow> (inpixon \<Rightarrow> jsval option) \<Rightarrow> jsval" where
  "nestedFlag gd f =
     (case sg_legend gd of None \<Rightarrow> JUndefined
      | Some lg \<Rightarrow> (case inpixonCustomAttribute lg of None \<Rightarrow> JUndefined
         | Some ica \<Rightarrow> (case f ica of None \<Rightarrow> JUndefined | Some v \<Rightarrow> v)))"

text \<open>
  \<^verbatim>\<open>gd.layout.legend.inpixonCustomAttribute.itemheight\<close> (lines 219, 245, 450, 505, 608,
  639), read without a test: a TypeError when the legend or the attribute is absent.
\<close>

definition itemheightOf :: "style_gd \<Rightarrow> error + real" where
  "itemheightOf gd =
     (case sg_legend gd of None \<Rightarrow> Inl TypeError
      | Some lg \<Rightarrow> (case inpixonCustomAttribute lg of None \<Rightarrow> Inl TypeError
         | Some ica \<Rightarrow> Inr (itemheight ica)))"

section \<open>The built-in parseInt\<close>

text \<open>
  \<^verbatim>\<open>parseInt(v)\<close> turns its argument into a string and reads the longest prefix that is
  an integer: white space, a sign, then decimal digits, or hexadecimal digits after
  \<^verbatim>\<open>0x\<close>. The result is \<open>None\<close> for NaN. For a number the string is its decimal
  expansion, so the result is the number truncated towards zero (the numbers that
  JavaScript prints with an exponent, those of magnitude at least \<open>10^21\<close> or below
  \<open>10^-6\<close>, are outside this model). Strings are strings of ASCII characters.
\<close>

definition isWhite :: "char \<Rightarrow> bool" where
  "isWhite c = (c = CHR '' '' \<or> (9 \<le> (of_char c :: nat) \<and> (of_char c :: nat) \<le> 13))"

definition digitOf :: "nat \<Rightarrow> char \<Rightarrow> nat option" where
  "digitOf radix c =
     (let n = (of_char c :: nat);
          v = (if 48 \<le> n \<and> n \<le> 57 then Some (n - 48)
               else if 97 \<le> n \<and> n \<le> 122 then Some (n - 87)
               else if 65 \<le> n \<and> n \<le> 90 then Some (n - 55)
               else None)
      in case v of None \<Rightarrow> None | Some d \<Rightarrow> if d < radix then Some d else None)"

fun digitsValue :: "nat \<Rightarrow> string \<Rightarrow> nat \<Rightarrow> nat" where
  "digitsValue radix [] acc = acc"
| "digitsValue radix (c # cs) acc =
     (case digitOf radix c of None \<Rightarrow> acc
      | Some d \<Rightarrow> digitsValue radix cs (radix * acc + d))"

definition parseDigits :: "nat \<Rightarrow> string \<Rightarrow> real option" where
  "parseDigits radix cs =
     (case cs of [] \<Rightarrow> None
      | c # _ \<Rightarrow> (case digitOf radix c of None \<Rightarrow> None
                  | Some _ \<Rightarrow> Some (of_nat (digitsValue radix cs 0))))"

definition parseIntString :: "string \<Rightarrow> real option" where
  "parseIntString str =
     (let s1 = dropWhile isWhite str;
          negative = (take 1 s1 = ''-'');
          s2 = (if take 1 s1 = ''-'' \<or> take 1 s1 = ''+'' then drop 1 s1 else s1);
          magnitude = (if take 2 s2 = ''0x'' \<or> take 2 s2 = ''0X''
                       then parseDigits 16 (drop 2 s2) else parseDigits 10 s2)
      in map_option (\<lambda>m. if negative then - m else m) magnitude)"

fun parseInt :: "jsval \<Rightarrow> real option" where
  "parseInt JUndefined = None"
| "parseInt (JBool b) = None"
| "parseInt (JNum r) = Some (if 0 \<le> r then of_int \<lfloor>r\<rfloor> else of_int \<lceil>r\<rceil>)"
| "parseInt (JStr str) = parseIntString str"

section \<open>legend/style.js: the glyph layer (lines 44-101)\<close>

text \<open>
  The \<^verbatim>\<open>transform\<close> attribute of the group \<^verbatim>\<open>layers\<close> of one legend item. \<open>itemGap\<close> is
  \<^verbatim>\<open>constants.itemGap\<close> of legend/constants.js, which is not among the sources.
\<close>

definition valignTransform :: "legend \<Rightarrow> item \<Rightarrow> tattr" where
  "valignTransform legend d =
     (if lg_valign legend = VMiddle \<or> lineHeight d = 0 \<or> it_height d = 0 then None
      else
        let factor = (case lg_valign legend of VTop \<Rightarrow> 1 | VBottom \<Rightarrow> - 1 | VMiddle \<Rightarrow> 0);
            markerOffsetY = factor * (0.5 * (lineHeight d - it_height d + 3))
        in Some (strTranslate 0 markerOffsetY))"

definition isBoxSizingValid :: "style_gd \<Rightarrow> legend \<Rightarrow> bool" where
  "isBoxSizingValid gd legend =
     (let boxSizingAttribute = parseInt (nestedFlag gd boxsizing);
          fullLayoutWidth = sg_fullWidth gd
      in (case boxSizingAttribute of None \<Rightarrow> False | Some b \<Rightarrow> b \<ge> 0) \<and>
         lg_width legend < fullLayoutWidth)"

definition layersTransform :: "real \<Rightarrow> style_gd \<Rightarrow> legend \<Rightarrow> item \<Rightarrow> tattr" where
  "layersTransform itemGap gd legend d =
     (let boxSizingAttribute = parseInt (nestedFlag gd boxsizing) in
      if nestedFlag gd symbolplacement = JBool True then
        let moveLegendSymbolBy =
              (if isBoxSizingValid gd legend
               then lg_width legend - itemwidth legend - 2 * itemGap -
                    the boxSizingAttribute * 0.5
               else lg_width legend - itemwidth legend - 2 * itemGap)
        in Some (strTranslate moveLegendSymbolBy 0)
      else if isBoxSizingValid gd legend
        then Some (strTranslate (the boxSizingAttribute * 0.5) 0)
        else valignTransform legend d)"

section \<open>legend/style.js: getStyleGuide and getGradientDirection (lines 764-805)\<close>

record styleGuide =
  showMarker :: bool
  showLine :: bool
  showFill :: bool
  showGradientLine :: bool
  showGradientFill :: bool
  anyLine :: bool
  anyFill :: bool

text \<open>
  \<open>sLine\<close>, \<open>sFill\<close>, \<open>sGradientLine\<close> and \<open>sGradientFill\<close> are the local variables
  \<^verbatim>\<open>showLine\<close>, \<^verbatim>\<open>showFill\<close>, \<^verbatim>\<open>showGradientLine\<close> and \<^verbatim>\<open>showGradientFill\<close> when the
  object is returned; \<open>toggle\<close> is the truth value of the argument \<^verbatim>\<open>hidetoggle\<close>.
\<close>

definition getStyleGuide :: "item \<Rightarrow> bool \<Rightarrow> styleGuide" where
  "getStyleGuide d toggle =
     (let trace = it_trace d;
          sMarker = tr_hasMarkers trace;
          sGradientLine =
            (case tr_contours trace of None \<Rightarrow> False
             | Some c \<Rightarrow> coloring c = JStr ''lines'');
          sLine =
            (case tr_contours trace of None \<Rightarrow> tr_hasLines trace
             | Some c \<Rightarrow>
                 if coloring c = JStr ''lines'' then tr_hasLines trace
                 else coloring c = JStr ''none'' \<or> coloring c = JStr ''heatmap'' \<or> showlines c);
          sFill =
            (case tr_contours trace of
               None \<Rightarrow> tr_visible trace \<and> truthy (tr_fill trace) \<and> tr_fill trace \<noteq> JStr ''none''
             | Some c \<Rightarrow>
                 if ct_type c = JStr ''constraint'' then ct_operation c \<noteq> JStr ''=''
                 else tr_visible trace \<and> truthy (tr_fill trace) \<and> tr_fill trace \<noteq> JStr ''none'');
          sGradientFill =
            (case tr_contours trace of None \<Rightarrow> False
             | Some c \<Rightarrow>
                 if ct_type c = JStr ''constraint'' then False
                 else coloring c = JStr ''fill'' \<or> coloring c = JStr ''heatmap'')
      in \<lparr>showMarker = (if toggle then False else sMarker),
          showLine = (if toggle then False else sLine),
          showFill = (if toggle then False else sFill),
          showGradientLine = (if toggle then False else sGradientLine),
          showGradientFill = (if toggle then False else sGradientFill),
          anyLine = (sLine \<or> sGradientLine),
          anyFill = (sFill \<or> sGradientFill)\<rparr>)"

definition getGradientDirection :: "bool \<Rightarrow> bool \<Rightarrow> string" where
  "getGradientDirection reversescale isRadial =
     (let str = (if isRadial then ''radial'' else ''horizontal'')
      in str @ (if reversescale then [] else ''reversed''))"

section \<open>legend/style.js: styleSpatial (lines 634-723)\<close>

text \<open>
  A path string with the numbers that a template literal puts into it: \<open>Lit\<close> is
  literal text, \<open>Num\<close> a number written out by the conversion of numbers to strings.
\<close>

datatype seg = Lit string | Num real

type_synonym path = "seg list"

text \<open>The values of \<^verbatim>\<open>useGradient\<close>: \<^verbatim>\<open>true\<close>, \<^verbatim>\<open>'radial'\<close> and \<^verbatim>\<open>false\<close>.\<close>

datatype gradient = GTrue | GRadial | GFalse

text \<open>
  Lines 640-715: \<^verbatim>\<open>ptsData\<close>, one path for each entry, and \<^verbatim>\<open>useGradient\<close>, \<open>None\<close>
  while it is undefined.
\<close>

definition ptsData :: "real \<Rightarrow> trace \<Rightarrow> path list \<times> gradient option" where
  "ptsData ih trace =
     (if tr_visible trace then
        (if tr_type trace = ''histogram2d'' \<or> tr_type trace = ''heatmap'' then
           ([[Lit ''M-15,-'', Num (ih / 15), Lit ''V'', Num (ih / 5), Lit ''H15V-'',
              Num (ih / 15), Lit ''Z'']], Some GTrue)
         else if tr_type trace = ''choropleth'' \<or> tr_type trace = ''choroplethmapbox'' then
           ([[Lit ''M-6,-6V'', Num (ih / 5), Lit ''H6V-6Z'']], Some GTrue)
         else if tr_type trace = ''densitymapbox'' then
           ([[Lit ''M-6,0 a6,6 0 1,0 12,0 a 6,6 0 1,0 -12,0'']], Some GRadial)
         else if tr_type trace = ''cone'' then
           ([[Lit ''M-6,2 A2,2 0 0,0 -6,6 V6L6,4Z''],
             [Lit ''M-6,-6 A2,2 0 0,0 -6,-2 L6,-4Z''],
             [Lit ''M-6,-2 A2,2 0 0,0 -6,2 L6,0Z'']], Some GFalse)
         else if tr_type trace = ''streamtube'' then
           ([[Lit ''M-6,2 A2,2 0 0,0 -6,6 H6 A2,2 0 0,1 6,2 Z''],
             [Lit ''M-6,-6 A2,2 0 0,0 -6,-2 H6 A2,2 0 0,1 6,-6 Z''],
             [Lit ''M-6,-2 A2,2 0 0,0 -6,2 H6 A2,2 0 0,1 6,-2 Z'']], Some GFalse)
         else if tr_type trace = ''surface'' then
           ([[Lit ''M-6,-6 A2,3 0 0,0 -6,0 H6 A2,3 0 0,1 6,-6 Z''],
             [Lit ''M-6,1 A2,3 0 0,1 -6,6 H6 A2,3 0 0,0 6,0 Z'']], Some GTrue)
         else if tr_type trace = ''mesh3d'' then
           ([[Lit ''M-6,6H0L-6,-6Z''], [Lit ''M6,6H0L6,-6Z''], [Lit ''M-6,-6H6L0,6Z'']],
            Some GFalse)
         else if tr_type trace = ''volume'' then
           ([[Lit ''M-6,6H0L-6,-6Z''], [Lit ''M6,6H0L6,-6Z''], [Lit ''M-6,-6H6L0,6Z'']],
            Some GTrue)
         else if tr_type trace = ''isosurface'' then
           ([[Lit ''M-6,6H0L-6,-6Z''], [Lit ''M6,6H0L6,-6Z''],
             [Lit ''M-6,-6 A12,24 0 0,0 6,-6 L0,6Z'']], Some GFalse)
         else ([], None))
      else ([], None))"

text \<open>
  The legend glyph of a spatial trace: the \<^verbatim>\<open>d\<close> attributes of the paths
  \<^verbatim>\<open>path.legend3dandfriends\<close> that the data join leaves (lines 717-723, 754), the value
  of \<^verbatim>\<open>useGradient\<close>, and the direction \<^verbatim>\<open>fillGradient\<close> asks for (line 735) when a path is
  filled with the gradient of the trace's colour scale.
\<close>

record spatial =
  sp_paths :: "path list"
  sp_useGradient :: "gradient option"
  sp_direction :: string

definition styleSpatial :: "style_gd \<Rightarrow> item \<Rightarrow> error + spatial" where
  "styleSpatial gd d =
     (case itemheightOf gd of Inl e \<Rightarrow> Inl e
      | Inr ih \<Rightarrow>
          Inr \<lparr>sp_paths = fst (ptsData ih (it_trace d)),
               sp_useGradient = snd (ptsData ih (it_trace d)),
               sp_direction =
                 getGradientDirection (tr_reversescale (it_trace d))
                   (snd (ptsData ih (it_trace d)) = Some GRadial)\<rparr>)"

section \<open>legend/style.js: styleLines and stylePoints (lines 151-390)\<close>

text \<open>
  What \<^verbatim>\<open>styleLines\<close> leaves for one item: the legend object, \<^verbatim>\<open>pathStart\<close>, and the
  \<^verbatim>\<open>d\<close> attributes of the paths of the fill and of the line (each list is empty or has one
  path). \<open>itemWidth\<close> is the variable that \<^verbatim>\<open>style\<close> set at line 28.
\<close>

record linesOut =
  lo_legend :: legend
  lo_pathStart :: string
  lo_fill :: "path list"
  lo_line :: "path list"

definition styleLines :: "style_gd \<Rightarrow> real \<Rightarrow> legend \<Rightarrow> item \<Rightarrow> error + linesOut" where
  "styleLines gd itemWidth legend d =
     (let guide = getStyleGuide d (hidetoggle legend);
          symbolStyle = nestedFlag gd symbolstyle;
          plain = (symbolStyle = JStr ''markers'' \<or> symbolStyle = JStr ''none'');
          sLine = (if plain then False else showLine guide);
          sFill = (if plain then False else showFill guide);
          legend1 = (if symbolStyle = JStr ''none'' then legend\<lparr>itemwidth := 0\<rparr> else legend);
          pathStart = (if tr_hasMarkers (it_trace d) \<or> \<not> anyFill guide then ''M5,0''
                       else if anyLine guide then ''M5,-2'' else ''M5,-3'')
      in case itemheightOf gd of Inl e \<Rightarrow> Inl e
         | Inr ih \<Rightarrow>
             Inr \<lparr>lo_legend = legend1,
                  lo_pathStart = pathStart,
                  lo_fill =
                    (if sFill \<or> showGradientFill guide
                     then [[Lit pathStart, Lit ''h'', Num itemWidth, Lit ''v'', Num (ih / 5),
                            Lit ''h-'', Num itemWidth, Lit ''z'']]
                     else []),
                  lo_line =
                    (if sLine \<or> showGradientLine guide
                     then [[Lit pathStart] @
                           (if showGradientLine guide
                            then [Lit ''l'', Num itemWidth, Lit '',0.0001'']
                            else if sg_mode gd = JStr ''markers+lines'' \<or>
                                    sg_coloring gd = JStr ''fill''
                              then [Lit ''h'', Num itemWidth]
                              else [Lit ''h'', Num ih])]
                     else [])\<rparr>)"

text \<open>
  Of \<^verbatim>\<open>stylePoints\<close>, the two data joins: whether the marker path \<^verbatim>\<open>path.scatterpts\<close> and
  the text \<^verbatim>\<open>g.pointtext\<close> are drawn (lines 274-292, 368-369, 383-384).
\<close>

record pointsOut =
  po_marker :: bool
  po_text :: bool

definition stylePoints :: "style_gd \<Rightarrow> legend \<Rightarrow> item \<Rightarrow> pointsOut" where
  "stylePoints gd legend d =
     (let guide = getStyleGuide d (hidetoggle legend);
          symbolStyle = nestedFlag gd symbolstyle;
          sMarker = (if symbolStyle = JStr ''lines'' \<or> symbolStyle = JStr ''none'' then False
                     else showMarker guide);
          sText = (\<not> sMarker \<and> \<not> anyLine guide \<and> \<not> anyFill guide \<and> tr_hasText (it_trace d))
      in \<lparr>po_marker = sMarker, po_text = sText\<rparr>)"

section \<open>legend/style.js: style (lines 24-149)\<close>

text \<open>
  The chain of \<^verbatim>\<open>each\<close> calls: every step visits all the items before the next step
  starts. The steps modelled are the first callback (the glyph layer), \<^verbatim>\<open>styleSpatial\<close>,
  \<^verbatim>\<open>styleLines\<close> and \<^verbatim>\<open>stylePoints\<close>; the other steps (waterfalls, funnels, bars, boxes,
  funnel areas, pies, candles, OHLC) read the legend object and never assign to it.
  \<^verbatim>\<open>styleLines\<close> is the only step that assigns to the legend object; the object is passed
  from item to item and returned.
\<close>

fun eachSpatial :: "style_gd \<Rightarrow> item list \<Rightarrow> error + spatial list" where
  "eachSpatial gd [] = Inr []"
| "eachSpatial gd (d # ds) =
     (case styleSpatial gd d of Inl e \<Rightarrow> Inl e
      | Inr x \<Rightarrow> (case eachSpatial gd ds of Inl e \<Rightarrow> Inl e | Inr xs \<Rightarrow> Inr (x # xs)))"

fun eachLines :: "style_gd \<Rightarrow> real \<Rightarrow> legend \<Rightarrow> item list \<Rightarrow> error + legend \<times> linesOut list" where
  "eachLines gd itemWidth legend [] = Inr (legend, [])"
| "eachLines gd itemWidth legend (d # ds) =
     (case styleLines gd itemWidth legend d of Inl e \<Rightarrow> Inl e
      | Inr x \<Rightarrow> (case eachLines gd itemWidth (lo_legend x) ds of Inl e \<Rightarrow> Inl e
                 | Inr (legend', xs) \<Rightarrow> Inr (legend', x # xs)))"

record styleOut =
  so_legend :: legend
  so_centerTransform :: "tform list"
  so_layers :: "tattr list"
  so_spatial :: "spatial list"
  so_lines :: "linesOut list"
  so_points :: "pointsOut list"

definition style :: "real \<Rightarrow> style_gd \<Rightarrow> legend \<Rightarrow> item list \<Rightarrow> error + styleOut" where
  "style itemGap gd legend s =
     (let itemWidth = itemwidth legend;
          centerPos = (itemWidth + itemGap * 2) / 2;
          centerTransform = strTranslate centerPos 0;
          layers = map (layersTransform itemGap gd legend) s
      in case eachSpatial gd s of Inl e \<Rightarrow> Inl e
         | Inr spatials \<Rightarrow>
            (case eachLines gd itemWidth legend s of Inl e \<Rightarrow> Inl e
             | Inr (legend', lines) \<Rightarrow>
                 Inr \<lparr>so_legend = legend',
                      so_centerTransform = centerTransform,
                      so_layers = layers,
                      so_spatial = spatials,
                      so_lines = lines,
                      so_points = map (stylePoints gd legend') s\<rparr>))"

text \<open>
  A sample legend, used to run the model: a legend 200 pixels wide on a plot 700 wide,
  with symbols 30 wide, a box size of 12.7 and the symbols placed after the text; one
  visible scatter trace with lines, markers and a fill.
\<close>

definition sampleStyleGd :: style_gd where
  "sampleStyleGd =
     \<lparr>sg_legend = Some \<lparr>inpixonCustomAttribute =
                     Some (sampleFlags\<lparr>boxsizing := Some (JNum 12.7),
                                        symbolplacement := Some (JBool True),
                                        symbolstyle := Some (JStr ''none'')\<rparr>)\<rparr>,
      sg_fullWidth = 700, sg_mode = JStr ''lines+markers'', sg_coloring = JUndefined\<rparr>"

definition sampleLegend :: legend where
  "sampleLegend =
     \<lparr>itemsizing = ''trace'', itemwidth = 30, lg_valign = VTop, lg_width = 200,
      hidetoggle = False\<rparr>"

definition sampleItem :: item where
  "sampleItem =
     \<lparr>it_trace = \<lparr>tr_type = ''scatter'', tr_visible = True, tr_fill = JStr ''tozeroy'',
                  tr_contours = None, tr_hasLines = True, tr_hasMarkers = False,
                  tr_hasText = False, tr_reversescale = False\<rparr>,
      lineHeight = 19, it_height = 38\<rparr>"

section \<open>Axis title visibility\<close>


section \<open>Title avoidance\<close>

subsection \<open>The loop over the avoided elements\<close>







subsection \<open>The shift of scootTitle\<close>



subsection \<open>The bound maxshift\<close>

lemma scootTitle_SomeD:
  assumes "scootTitle a txt width height tbb = Some r" and "av_side a = Some s"
  shows "\<exists>sel. selection a = Some sel \<and>
     sc_maxshift r = orElse (maxShift a) (shiftSign s * (paperbb width height s - edge tbb s)) \<and>
     sc_shift r = (if sc_maxshift r < 0 then sc_maxshift r
                   else min (sc_maxshift r)
                          (avoidEach (shiftSign s) s (padOf a) (offsetTitlebb a tbb) sel 0)) \<and>
     sc_transform r =
       (if sc_shift r > 0 \<or> sc_maxshift r < 0
        then Some (strTranslate (fst (shiftTemplate s (sc_shift r)))
                                (snd (shiftTemplate s (sc_shift r))))
        else None)"
proof (cases "selection a")
  case None
  with assms show ?thesis by (simp add: scootTitle_def)
next
  case (Some sel)
  with assms have "txt \<noteq> []" by (auto simp: scootTitle_def split: if_splits)
  with assms Some show ?thesis by (auto simp: scootTitle_def Let_def)
qed

lemma xbothAvoid_SomeD:
  assumes "xbothAvoid a txt xside width height tbb = Some r" and "av_side a = Some s"
  shows "\<exists>sel. selection a = Some sel \<and>
     sc_maxshift r = orElse (maxShift a)
        ((if s = SLeft \<or> xside = JStr ''both'' then - 1 else 1) * (0 - bb_height tbb)) \<and>
     sc_shift r = (if sc_maxshift r < 0 then sc_maxshift r
                   else min (sc_maxshift r)
                          (avoidEach (if s = SLeft \<or> xside = JStr ''both'' then - 1 else 1)
                             s (padOf a) (offsetTitlebb a tbb) sel 0)) \<and>
     sc_transform r = Some (strTranslate (sc_shift r) (sc_maxshift r))"
proof (cases "selection a")
  case None
  with assms show ?thesis by (simp add: xbothAvoid_def)
next
  case (Some sel)
  with assms have "txt \<noteq> []" by (auto simp: xbothAvoid_def split: if_splits)
  with assms Some show ?thesis by (auto simp: xbothAvoid_def Let_def)
qed

text \<open>
  C2, as the code has it. In \<^verbatim>\<open>scootTitle\<close>, \<open>maxshift\<close> is \<^verbatim>\<open>avoid.maxShift\<close> when that
  is a number other than 0 and otherwise \<open>shiftSign\<close> times the distance from the
  title's bounding box to the paper edge on \<^verbatim>\<open>avoid.side\<close>; the shift never exceeds
  \<open>maxshift\<close> and is \<open>maxshift\<close> when that is negative; a translate is written exactly
  when the shift is positive or \<open>maxshift\<close> is negative; and with no \<^verbatim>\<open>avoid.maxShift\<close>
  the shifted title does not pass the paper edge on \<^verbatim>\<open>avoid.side\<close>.
  In the x-axis branch of lines 425-481 the shift is bounded by \<open>maxshift\<close> and forced
  to it in the same way, but \<open>maxshift\<close> is \<^verbatim>\<open>avoid.maxShift\<close> or else \<open>shiftSign\<close> times
  \<^verbatim>\<open>paperbb.top - titlebb.height\<close>, with \<open>shiftSign\<close> \<open>-1\<close> when \<^verbatim>\<open>avoid.side\<close> is left or
  the x-axis side is both, and \<^verbatim>\<open>translate(shift, maxshift)\<close> is always written.
\<close>

theorem avoidance_shift_within_maxshift:
  assumes "av_side a = Some s"
  shows "(\<forall>r. scootTitle a txt width height tbb = Some r \<longrightarrow>
            sc_maxshift r =
              orElse (maxShift a) (shiftSign s * (paperbb width height s - edge tbb s)) \<and>
            sc_shift r \<le> sc_maxshift r \<and>
            (sc_maxshift r < 0 \<longrightarrow> sc_shift r = sc_maxshift r) \<and>
            (sc_transform r \<noteq> None \<longleftrightarrow> 0 < sc_shift r \<or> sc_maxshift r < 0) \<and>
            (maxShift a = None \<longrightarrow>
               shiftSign s * (edge tbb s + shiftSign s * sc_shift r)
                 \<le> shiftSign s * paperbb width height s)) \<and>
         (\<forall>r. xbothAvoid a txt xside width height tbb = Some r \<longrightarrow>
            sc_maxshift r =
              orElse (maxShift a)
                ((if s = SLeft \<or> xside = JStr ''both'' then - 1 else 1) * (0 - bb_height tbb)) \<and>
            sc_shift r \<le> sc_maxshift r \<and>
            (sc_maxshift r < 0 \<longrightarrow> sc_shift r = sc_maxshift r) \<and>
            sc_transform r = Some [Translate (sc_shift r) (sc_maxshift r)])"
proof (intro conjI allI impI)
  fix r
  assume run: "scootTitle a txt width height tbb = Some r"
  from scootTitle_SomeD [OF run assms] obtain sel where
    m: "sc_maxshift r = orElse (maxShift a) (shiftSign s * (paperbb width height s - edge tbb s))"
    and sh: "sc_shift r = (if sc_maxshift r < 0 then sc_maxshift r
                   else min (sc_maxshift r)
                          (avoidEach (shiftSign s) s (padOf a) (offsetTitlebb a tbb) sel 0))"
    and tr: "sc_transform r =
       (if sc_shift r > 0 \<or> sc_maxshift r < 0
        then Some (strTranslate (fst (shiftTemplate s (sc_shift r)))
                                (snd (shiftTemplate s (sc_shift r))))
        else None)"
    by blast
  show "sc_maxshift r = orElse (maxShift a) (shiftSign s * (paperbb width height s - edge tbb s))"
    by (fact m)
  show le: "sc_shift r \<le> sc_maxshift r"
    by (subst sh) simp
  show "sc_shift r = sc_maxshift r" if "sc_maxshift r < 0"
    using that by (subst sh) simp
  show "(sc_transform r \<noteq> None) = (0 < sc_shift r \<or> sc_maxshift r < 0)"
    by (subst tr) simp
  show "shiftSign s * (edge tbb s + shiftSign s * sc_shift r) \<le> shiftSign s * paperbb width height s"
    if "maxShift a = None"
  proof -
    from that m have "sc_maxshift r = shiftSign s * (paperbb width height s - edge tbb s)"
      by (simp add: orElse_def)
    with le have "sc_shift r \<le> shiftSign s * (paperbb width height s - edge tbb s)" by simp
    moreover have "shiftSign s * shiftSign s = 1" by (simp add: shiftSign_def)
    ultimately show ?thesis by (simp add: algebra_simps)
  qed
next
  fix r
  assume run: "xbothAvoid a txt xside width height tbb = Some r"
  from xbothAvoid_SomeD [OF run assms] obtain sel where
    m: "sc_maxshift r = orElse (maxShift a)
        ((if s = SLeft \<or> xside = JStr ''both'' then - 1 else 1) * (0 - bb_height tbb))"
    and sh: "sc_shift r = (if sc_maxshift r < 0 then sc_maxshift r
                   else min (sc_maxshift r)
                          (avoidEach (if s = SLeft \<or> xside = JStr ''both'' then - 1 else 1)
                             s (padOf a) (offsetTitlebb a tbb) sel 0))"
    and tr: "sc_transform r = Some (strTranslate (sc_shift r) (sc_maxshift r))"
    by blast
  show "sc_maxshift r = orElse (maxShift a)
        ((if s = SLeft \<or> xside = JStr ''both'' then - 1 else 1) * (0 - bb_height tbb))"
    by (fact m)
  show "sc_shift r \<le> sc_maxshift r"
    by (subst sh) simp
  show "sc_shift r = sc_maxshift r" if "sc_maxshift r < 0"
    using that by (subst sh) simp
  show "sc_transform r = Some [Translate (sc_shift r) (sc_maxshift r)]"
    using tr by (simp add: strTranslate_def)
qed

theorem avoidance_shift_within_maxshift_witness:
  "(\<exists>r. scootTitle \<lparr>selection = Some [\<lparr>bb_left = 150, bb_right = 250, bb_top = 40, bb_bottom = 60,
                                          bb_width = 100, bb_height = 20\<rparr>],
                      av_side = Some SBottom, pad = None, maxShift = None,
                      offsetLeft = None, offsetTop = None\<rparr>
          ''Title'' 700 450
          \<lparr>bb_left = 100, bb_right = 300, bb_top = 50, bb_bottom = 70,
           bb_width = 200, bb_height = 20\<rparr> = Some r \<and>
        sc_maxshift r = 380 \<and> sc_shift r \<le> sc_maxshift r \<and> sc_transform r \<noteq> None) \<and>
   (\<exists>r. xbothAvoid \<lparr>selection = Some [\<lparr>bb_left = 150, bb_right = 250, bb_top = 40, bb_bottom = 60,
                                          bb_width = 100, bb_height = 20\<rparr>],
                      av_side = Some SBottom, pad = None, maxShift = None,
                      offsetLeft = None, offsetTop = None\<rparr>
          ''Title'' (JStr ''both'') 700 450
          \<lparr>bb_left = 100, bb_right = 300, bb_top = 50, bb_bottom = 70,
           bb_width = 200, bb_height = 20\<rparr> = Some r \<and>
        sc_maxshift r = 20 \<and> sc_shift r \<le> sc_maxshift r \<and>
        sc_transform r = Some [Translate (sc_shift r) 20])"
  using avoidance_shift_within_maxshift [of
      "\<lparr>selection = Some [\<lparr>bb_left = 150, bb_right = 250, bb_top = 40, bb_bottom = 60,
                                          bb_width = 100, bb_height = 20\<rparr>],
                      av_side = Some SBottom, pad = None, maxShift = None,
                      offsetLeft = None, offsetTop = None\<rparr>"
      SBottom "''Title''" 700 450
      "\<lparr>bb_left = 100, bb_right = 300, bb_top = 50, bb_bottom = 70,
           bb_width = 200, bb_height = 20\<rparr>" "JStr ''both''"]
  by (simp add: scootTitle_def xbothAvoid_def Let_def padOf_def orElse_def shiftSign_def
        offsetTitlebb_def bBoxIntersect_def clearance_def strTranslate_def)

text \<open>
  The x-axis branch with an empty selection on a 700 by 450 paper, for a group 20
  pixels high: the shift is 0 and \<open>maxshift\<close> is 20, neither positive shift nor negative
  bound, and still \<^verbatim>\<open>translate(0, 20)\<close> is written; 20 is not the distance of the
  group's bottom edge from the paper's. And \<^verbatim>\<open>scootTitle\<close> with \<^verbatim>\<open>avoid.maxShift\<close> 5: \<open>maxshift\<close>
  is 5, not the distance 430 to the paper edge.
\<close>

theorem xboth_translate_counterexample:
  "(\<exists>r. xbothAvoid \<lparr>selection = Some [], av_side = Some SBottom, pad = None, maxShift = None,
                      offsetLeft = None, offsetTop = None\<rparr>
          ''Title'' (JStr ''both'') 700 450
          \<lparr>bb_left = 300, bb_right = 400, bb_top = 0, bb_bottom = 20,
           bb_width = 100, bb_height = 20\<rparr> = Some r \<and>
        sc_shift r = 0 \<and> sc_maxshift r = 20 \<and>
        sc_transform r = Some [Translate 0 20] \<and>
        \<not> (0 < sc_shift r \<or> sc_maxshift r < 0) \<and>
        sc_maxshift r \<noteq> - 1 * (paperbb 700 450 SBottom - 20) \<and>
        sc_maxshift r \<noteq> 1 * (paperbb 700 450 SBottom - 20)) \<and>
   (\<exists>r. scootTitle \<lparr>selection = Some [], av_side = Some SBottom, pad = None,
                      maxShift = Some 5, offsetLeft = None, offsetTop = None\<rparr>
          ''Title'' 700 450
          \<lparr>bb_left = 300, bb_right = 400, bb_top = 0, bb_bottom = 20,
           bb_width = 100, bb_height = 20\<rparr> = Some r \<and>
        sc_maxshift r = 5 \<and>
        sc_maxshift r \<noteq> shiftSign SBottom * (paperbb 700 450 SBottom - 20))"
  by (simp add: xbothAvoid_def scootTitle_def Let_def padOf_def orElse_def offsetTitlebb_def
        strTranslate_def shiftSign_def)

section \<open>The axis-side branches of draw\<close>

lemma titleStandoff_own_standoff:
  "ax_title_standoff ax \<noteq> None \<Longrightarrow> titleStandoff ax axLetter = Inl ReferenceError"
  by (simp add: titleStandoff_def)

lemma titleStandoff_InrD:
  "titleStandoff ax axLetter = Inr v \<Longrightarrow> ax_title_standoff ax = None"
  by (cases "ax_title_standoff ax") (simp_all add: titleStandoff_def)

lemma xbothBranch_own_standoff:
  "fl_xaxis i = Some ax \<Longrightarrow> ax_title_standoff ax \<noteq> None \<Longrightarrow>
     xbothBranch i c = Inl ReferenceError"
  by (simp add: xbothBranch_def Let_def titleStandoff_own_standoff)

lemma ybothBranch_own_standoff:
  "fl_yaxis i = Some ax \<Longrightarrow> ax_title_standoff ax \<noteq> None \<Longrightarrow>
     ybothBranch i c = Inl ReferenceError"
  by (simp add: ybothBranch_def Let_def titleStandoff_own_standoff)

lemma xbothBranch_InrD:
  assumes "xbothBranch i c = Inr (b, c')"
  shows "\<exists>ax. fl_xaxis i = Some ax \<and> ax_title_standoff ax = None \<and>
     \<not> containerGroup i \<and>
     (if truthy (inpixonFlag (gd_layout i) xtitletop) \<and>
         axisSide (gd_layout i) lay_xaxis = JStr ''both''
      then layoutTitleText (layoutAxis (gd_layout i) lay_xaxis) = Inr (bt_text b)
      else bt_text b = []) \<and>
     ts_opacity (bt_style b) =
       (if axisSide (gd_layout i) lay_xaxis = JStr ''both''
        then opacity c * Color_opacity (fontColor c) else 0) \<and>
     opacity c' = opacity c \<and> fontColor c' = fontColor c"
proof -
  from assms obtain ax where ax: "fl_xaxis i = Some ax"
    by (cases "fl_xaxis i") (simp_all add: xbothBranch_def)
  from assms ax obtain v where v: "titleStandoff ax (take 1 (ax_id ax)) = Inr v"
    by (cases "titleStandoff ax (take 1 (ax_id ax))") (simp_all add: xbothBranch_def Let_def)
  from assms ax v obtain an where an: "xAnchorAxis ax (take 1 (ax_id ax)) (fl_size i) = Some an"
    by (cases "xAnchorAxis ax (take 1 (ax_id ax)) (fl_size i)")
       (simp_all add: xbothBranch_def Let_def)
  from assms ax v an have cg: "\<not> containerGroup i"
    by (auto simp: xbothBranch_def Let_def)
  let ?cond = "truthy (inpixonFlag (gd_layout i) xtitletop) \<and>
         axisSide (gd_layout i) lay_xaxis = JStr ''both''"
  from assms ax v an cg obtain t where
    t: "(if ?cond then layoutTitleText (layoutAxis (gd_layout i) lay_xaxis) else Inr []) = Inr t"
    by (cases "if ?cond then layoutTitleText (layoutAxis (gd_layout i) lay_xaxis) else Inr []")
       (simp_all add: xbothBranch_def Let_def)
  from assms have rest: "bt_text b = t \<and>
     ts_opacity (bt_style b) =
       (if axisSide (gd_layout i) lay_xaxis = JStr ''both''
        then opacity c * Color_opacity (fontColor c) else 0) \<and>
     opacity c' = opacity c \<and> fontColor c' = fontColor c"
    unfolding xbothBranch_def Let_def
    by (simp only: ax v an cg t option.case sum.case if_False) (auto split: if_splits)
  have "ax_title_standoff ax = None" using v by (rule titleStandoff_InrD)
  with ax cg t rest show ?thesis by (auto split: if_splits)
qed

lemma ybothBranch_InrD:
  assumes "ybothBranch i c = Inr (b, c')"
  shows "\<exists>ax. fl_yaxis i = Some ax \<and> ax_title_standoff ax = None \<and>
     \<not> containerGroup i \<and>
     (if truthy (inpixonFlag (gd_layout i) ytitleright) \<and>
         axisSide (gd_layout i) lay_yaxis = JStr ''both''
      then layoutTitleText (layoutAxis (gd_layout i) lay_yaxis) = Inr (bt_text b)
      else bt_text b = []) \<and>
     ts_opacity (bt_style b) =
       (if axisSide (gd_layout i) lay_yaxis = JStr ''both''
        then opacity c * Color_opacity (fontColor c) else 0) \<and>
     ts_transform (bt_style b) = Some [Rotate (- 270) (ts_x (bt_style b)) (ts_y (bt_style b))] \<and>
     opacity c' = opacity c \<and> fontColor c' = fontColor c"
proof -
  from assms obtain ax where ax: "fl_yaxis i = Some ax"
    by (cases "fl_yaxis i") (simp_all add: ybothBranch_def)
  from assms ax obtain v where v: "titleStandoff ax (take 1 (ax_id ax)) = Inr v"
    by (cases "titleStandoff ax (take 1 (ax_id ax))") (simp_all add: ybothBranch_def Let_def)
  from assms ax v obtain an where an: "yAnchorAxis ax (take 1 (ax_id ax)) (fl_size i) = Some an"
    by (cases "yAnchorAxis ax (take 1 (ax_id ax)) (fl_size i)")
       (simp_all add: ybothBranch_def Let_def)
  from assms ax v an have cg: "\<not> containerGroup i"
    by (auto simp: ybothBranch_def Let_def)
  let ?cond = "truthy (inpixonFlag (gd_layout i) ytitleright) \<and>
         axisSide (gd_layout i) lay_yaxis = JStr ''both''"
  from assms ax v an cg obtain t where
    t: "(if ?cond then layoutTitleText (layoutAxis (gd_layout i) lay_yaxis) else Inr []) = Inr t"
    by (cases "if ?cond then layoutTitleText (layoutAxis (gd_layout i) lay_yaxis) else Inr []")
       (simp_all add: ybothBranch_def Let_def)
  from assms have rest: "bt_text b = t \<and>
     ts_opacity (bt_style b) =
       (if axisSide (gd_layout i) lay_yaxis = JStr ''both''
        then opacity c * Color_opacity (fontColor c) else 0) \<and>
     ts_transform (bt_style b) = Some [Rotate (- 270) (ts_x (bt_style b)) (ts_y (bt_style b))] \<and>
     opacity c' = opacity c \<and> fontColor c' = fontColor c"
    unfolding ybothBranch_def Let_def
    by (simp only: ax v an cg t option.case sum.case if_False) (auto split: if_splits)
  have "ax_title_standoff ax = None" using v by (rule titleStandoff_InrD)
  with ax cg t rest show ?thesis by (auto split: if_splits)
qed

text \<open>What a completed call went through.\<close>

lemma draw_InrD:
  assumes "draw i = Inr (Some out)"
  shows "(title_txt i \<noteq> [] \<or> editable i) \<and>
     (\<exists>c1. (if entersX i then \<exists>b. xbothBranch i (vars i) = Inr (b, c1) \<and> out_xboth out = Some b
            else c1 = vars i \<and> out_xboth out = None) \<and>
           (if entersY i then \<exists>b c2. ybothBranch i c1 = Inr (b, c2) \<and> out_yboth out = Some b
            else out_yboth out = None))"
proof -
  have e: "title_txt i \<noteq> [] \<or> editable i"
    using assms by (auto simp: draw_def Let_def split: if_splits)
  let ?X = "if entersX i then map_sum id (\<lambda>(b, c). (Some b, c)) (xbothBranch i (vars i))
            else Inr (None, vars i)"
  from assms e obtain xb c1 where x: "?X = Inr (xb, c1)"
    by (cases ?X) (auto simp: draw_def Let_def)
  let ?Y = "if entersY i then map_sum id (\<lambda>(b, c). (Some b, c)) (ybothBranch i c1)
            else Inr (None, c1)"
  from assms e x obtain yb c2 where y: "?Y = Inr (yb, c2)"
    by (cases ?Y) (auto simp: draw_def Let_def)
  from assms e x y have o: "out_xboth out = xb" "out_yboth out = yb"
    by (auto simp: draw_def Let_def)
  have px: "if entersX i then \<exists>b. xbothBranch i (vars i) = Inr (b, c1) \<and> xb = Some b
            else c1 = vars i \<and> xb = None"
    using x by (cases "xbothBranch i (vars i)") (auto split: if_splits)
  have py: "if entersY i then \<exists>b c2. ybothBranch i c1 = Inr (b, c2) \<and> yb = Some b
            else yb = None"
    using y by (cases "ybothBranch i c1") (auto split: if_splits)
  from e px py o show ?thesis by auto
qed

text \<open>The sample call runs through both branches.\<close>

lemma draw_sampleCall:
  "draw sampleCall =
     Inr (Some
       \<lparr>out_text = Some ''Sales'',
        out_el = \<lparr>ts_transform = None, ts_font_family = ''Arial'', ts_font_size = 17,
                  ts_fill = ''rgb(68, 68, 68)'', ts_opacity = 1, ts_x = 350, ts_y = 50,
                  ts_anchor = ''middle''\<rparr>,
        out_group = None,
        out_xboth = Some \<lparr>bt_text = ''Month'',
                          bt_style = \<lparr>ts_transform = None, ts_font_family = ''Arial'',
                                      ts_font_size = 14, ts_fill = ''rgb(68, 68, 68)'',
                                      ts_opacity = 1, ts_x = 350, ts_y = 48,
                                      ts_anchor = ''middle''\<rparr>,
                          bt_group = None\<rparr>,
        out_yboth = Some \<lparr>bt_text = [],
                          bt_style = \<lparr>ts_transform = Some [Rotate (- 270) 658 235],
                                      ts_font_family = ''Arial'', ts_font_size = 14,
                                      ts_fill = ''rgb(68, 68, 68)'', ts_opacity = 0,
                                      ts_x = 658, ts_y = 235, ts_anchor = ''middle''\<rparr>,
                          bt_group = None\<rparr>,
        out_vars = \<lparr>transform = Some \<lparr>tr_rotate = Some (- 90), tr_offset = Some 0\<rparr>,
                    attributes = \<lparr>at_x = 350, at_y = 50, at_anchor = ''middle''\<rparr>,
                    fontFamily = ''Arial'', fontSize = 14,
                    fontColor = \<lparr>Color_rgb = ''rgb(68, 68, 68)'', Color_opacity = 1\<rparr>,
                    opacity = 1\<rparr>\<rparr>)"
  by (simp add: draw_def sampleCall_def sampleLayout_def sampleAxis_def sampleFlags_def Let_def
      entersX_def entersY_def axisSide_def xbothBranch_def ybothBranch_def titleStandoff_def
      xAnchorAxis_def yAnchorAxis_def inpixonFlag_def layoutTitleText_def layoutAxis_def
      drawTitle_def present_def scootTitle_def avoidOrEmpty_def xbothAvoid_def ybothAvoid_def
      titleText_def d3_round_def)

subsection \<open>The second axis titles\<close>

text \<open>
  C4, as the code has it. For a draw call that does not return early (the title text is
  not empty or the title is editable) and raises no exception: when the x-axis side is
  both, bottom or top, a second title is made in g-xtitleboth; its text is
  \<^verbatim>\<open>gd.layout.xaxis.title.text\<close> when \<open>xtitletop\<close> is truthy and the side is both and is
  empty otherwise; its opacity is the title opacity times the opacity of the font colour
  when the side is both and 0 otherwise. The same holds for the y-axis with the sides
  both, left and right, the flag \<open>ytitleright\<close> and the group g-ytitleboth, and that
  second title is rotated by -270 degrees about its own x and y. A branch that is not
  entered makes no second title.
\<close>

theorem second_axis_title:
  assumes "draw i = Inr (Some out)"
  shows "(entersX i \<longrightarrow>
            (\<exists>b. out_xboth out = Some b \<and>
               (if truthy (inpixonFlag (gd_layout i) xtitletop) \<and>
                   axisSide (gd_layout i) lay_xaxis = JStr ''both''
                then layoutTitleText (layoutAxis (gd_layout i) lay_xaxis) = Inr (bt_text b)
                else bt_text b = []) \<and>
               ts_opacity (bt_style b) =
                 (if axisSide (gd_layout i) lay_xaxis = JStr ''both''
                  then opacity (vars i) * Color_opacity (fontColor (vars i)) else 0))) \<and>
         (entersY i \<longrightarrow>
            (\<exists>b. out_yboth out = Some b \<and>
               (if truthy (inpixonFlag (gd_layout i) ytitleright) \<and>
                   axisSide (gd_layout i) lay_yaxis = JStr ''both''
                then layoutTitleText (layoutAxis (gd_layout i) lay_yaxis) = Inr (bt_text b)
                else bt_text b = []) \<and>
               ts_opacity (bt_style b) =
                 (if axisSide (gd_layout i) lay_yaxis = JStr ''both''
                  then opacity (vars i) * Color_opacity (fontColor (vars i)) else 0) \<and>
               ts_transform (bt_style b) =
                 Some [Rotate (- 270) (ts_x (bt_style b)) (ts_y (bt_style b))])) \<and>
         (\<not> entersX i \<longrightarrow> out_xboth out = None) \<and>
         (\<not> entersY i \<longrightarrow> out_yboth out = None)"
proof -
  from draw_InrD [OF assms] obtain c1 where
    x: "if entersX i then \<exists>b. xbothBranch i (vars i) = Inr (b, c1) \<and> out_xboth out = Some b
        else c1 = vars i \<and> out_xboth out = None"
    and y: "if entersY i then \<exists>b c2. ybothBranch i c1 = Inr (b, c2) \<and> out_yboth out = Some b
        else out_yboth out = None"
    by blast
  have c1: "opacity c1 = opacity (vars i) \<and> fontColor c1 = fontColor (vars i)"
  proof (cases "entersX i")
    case True
    with x obtain b where "xbothBranch i (vars i) = Inr (b, c1)" by auto
    from xbothBranch_InrD [OF this] show ?thesis by blast
  next
    case False
    with x show ?thesis by simp
  qed
  have X: "\<exists>b. out_xboth out = Some b \<and>
               (if truthy (inpixonFlag (gd_layout i) xtitletop) \<and>
                   axisSide (gd_layout i) lay_xaxis = JStr ''both''
                then layoutTitleText (layoutAxis (gd_layout i) lay_xaxis) = Inr (bt_text b)
                else bt_text b = []) \<and>
               ts_opacity (bt_style b) =
                 (if axisSide (gd_layout i) lay_xaxis = JStr ''both''
                  then opacity (vars i) * Color_opacity (fontColor (vars i)) else 0)"
    if "entersX i"
  proof -
    from that x obtain b where b: "xbothBranch i (vars i) = Inr (b, c1)" "out_xboth out = Some b"
      by auto
    from xbothBranch_InrD [OF b(1)] b(2) show ?thesis by blast
  qed
  have Y: "\<exists>b. out_yboth out = Some b \<and>
               (if truthy (inpixonFlag (gd_layout i) ytitleright) \<and>
                   axisSide (gd_layout i) lay_yaxis = JStr ''both''
                then layoutTitleText (layoutAxis (gd_layout i) lay_yaxis) = Inr (bt_text b)
                else bt_text b = []) \<and>
               ts_opacity (bt_style b) =
                 (if axisSide (gd_layout i) lay_yaxis = JStr ''both''
                  then opacity (vars i) * Color_opacity (fontColor (vars i)) else 0) \<and>
               ts_transform (bt_style b) =
                 Some [Rotate (- 270) (ts_x (bt_style b)) (ts_y (bt_style b))]"
    if "entersY i"
  proof -
    from that y obtain b c2 where b: "ybothBranch i c1 = Inr (b, c2)" "out_yboth out = Some b"
      by auto
    from ybothBranch_InrD [OF b(1)] b(2) c1 show ?thesis by auto
  qed
  have NX: "out_xboth out = None" if "\<not> entersX i" using that x by simp
  have NY: "out_yboth out = None" if "\<not> entersY i" using that y by simp
  from X Y NX NY show ?thesis by blast
qed

theorem second_axis_title_witness:
  "\<exists>out b c. draw sampleCall = Inr (Some out) \<and> out_xboth out = Some b \<and>
      bt_text b = ''Month'' \<and> ts_opacity (bt_style b) = 1 \<and>
      out_yboth out = Some c \<and> bt_text c = [] \<and> ts_opacity (bt_style c) = 0 \<and>
      ts_transform (bt_style c) = Some [Rotate (- 270) 658 235]"
  using second_axis_title [OF draw_sampleCall]
  by (simp add: draw_sampleCall)

text \<open>
  The sample call with an empty title that is not editable: the x-axis side is both, and
  the call returns at line 229 without making any second title. The sample call with a
  container group given: \<^verbatim>\<open>group_xboth\<close> is undefined and line 403 raises a TypeError.
\<close>

theorem second_axis_title_counterexample:
  "axisSide (gd_layout (sampleCall\<lparr>title_txt := [], editable := False\<rparr>)) lay_xaxis = JStr ''both'' \<and>
   draw (sampleCall\<lparr>title_txt := [], editable := False\<rparr>) = Inr None \<and>
   axisSide (gd_layout (sampleCall\<lparr>containerGroup := True\<rparr>)) lay_xaxis = JStr ''both'' \<and>
   draw (sampleCall\<lparr>containerGroup := True\<rparr>) = Inl TypeError"
  by (simp add: draw_def sampleCall_def sampleLayout_def sampleAxis_def sampleFlags_def Let_def
      entersX_def axisSide_def xbothBranch_def titleStandoff_def xAnchorAxis_def
      drawTitle_def scootTitle_def avoidOrEmpty_def)

subsection \<open>The missing function approxTitleDepth\<close>

text \<open>
  C8. When the axis of an axis-side branch has a title with an own property
  \<open>standoff\<close>, the branch raises a ReferenceError: the x-axis branch and the y-axis branch
  each, and with them the draw call that enters one of them. A draw call that returns
  without an exception has entered no branch whose axis title has an own \<open>standoff\<close>.
\<close>

theorem standoff_raises_ReferenceError:
  "(fl_xaxis i = Some ax \<and> ax_title_standoff ax \<noteq> None \<longrightarrow>
      xbothBranch i c = Inl ReferenceError) \<and>
   (fl_yaxis i = Some ay \<and> ax_title_standoff ay \<noteq> None \<longrightarrow>
      ybothBranch i c = Inl ReferenceError) \<and>
   ((title_txt i \<noteq> [] \<or> editable i) \<and> entersX i \<and>
      fl_xaxis i = Some ax \<and> ax_title_standoff ax \<noteq> None \<longrightarrow>
      draw i = Inl ReferenceError) \<and>
   ((title_txt i \<noteq> [] \<or> editable i) \<and> \<not> entersX i \<and> entersY i \<and>
      fl_yaxis i = Some ay \<and> ax_title_standoff ay \<noteq> None \<longrightarrow>
      draw i = Inl ReferenceError) \<and>
   (draw i = Inr res \<longrightarrow>
      \<not> ((title_txt i \<noteq> [] \<or> editable i) \<and> entersX i \<and>
         (\<exists>a. fl_xaxis i = Some a \<and> ax_title_standoff a \<noteq> None)) \<and>
      \<not> ((title_txt i \<noteq> [] \<or> editable i) \<and> entersY i \<and>
         (\<exists>a. fl_yaxis i = Some a \<and> ax_title_standoff a \<noteq> None)))"
proof (intro conjI impI)
  show "xbothBranch i c = Inl ReferenceError"
    if "fl_xaxis i = Some ax \<and> ax_title_standoff ax \<noteq> None"
    using that by (simp add: xbothBranch_own_standoff)
  show "ybothBranch i c = Inl ReferenceError"
    if "fl_yaxis i = Some ay \<and> ax_title_standoff ay \<noteq> None"
    using that by (simp add: ybothBranch_own_standoff)
  show "draw i = Inl ReferenceError"
    if "(title_txt i \<noteq> [] \<or> editable i) \<and> entersX i \<and>
        fl_xaxis i = Some ax \<and> ax_title_standoff ax \<noteq> None"
  proof -
    from that have "xbothBranch i (vars i) = Inl ReferenceError"
      by (simp add: xbothBranch_own_standoff)
    with that show ?thesis by (auto simp: draw_def Let_def)
  qed
  show "draw i = Inl ReferenceError"
    if "(title_txt i \<noteq> [] \<or> editable i) \<and> \<not> entersX i \<and> entersY i \<and>
        fl_yaxis i = Some ay \<and> ax_title_standoff ay \<noteq> None"
  proof -
    from that have "ybothBranch i (vars i) = Inl ReferenceError"
      by (simp add: ybothBranch_own_standoff)
    with that show ?thesis by (auto simp: draw_def Let_def)
  qed
next
  assume r: "draw i = Inr res"
  show "\<not> ((title_txt i \<noteq> [] \<or> editable i) \<and> entersX i \<and>
         (\<exists>a. fl_xaxis i = Some a \<and> ax_title_standoff a \<noteq> None))"
  proof
    assume h: "(title_txt i \<noteq> [] \<or> editable i) \<and> entersX i \<and>
         (\<exists>a. fl_xaxis i = Some a \<and> ax_title_standoff a \<noteq> None)"
    then have "xbothBranch i (vars i) = Inl ReferenceError"
      by (auto simp: xbothBranch_own_standoff)
    with h have "draw i = Inl ReferenceError" by (auto simp: draw_def Let_def)
    with r show False by simp
  qed
  show "\<not> ((title_txt i \<noteq> [] \<or> editable i) \<and> entersY i \<and>
         (\<exists>a. fl_yaxis i = Some a \<and> ax_title_standoff a \<noteq> None))"
  proof
    assume h: "(title_txt i \<noteq> [] \<or> editable i) \<and> entersY i \<and>
         (\<exists>a. fl_yaxis i = Some a \<and> ax_title_standoff a \<noteq> None)"
    then have y: "\<And>c. ybothBranch i c = Inl ReferenceError"
      by (auto simp: ybothBranch_own_standoff)
    from h have "\<exists>e. draw i = Inl e"
      by (auto simp: draw_def Let_def y split: sum.splits)
    with r show False by auto
  qed
qed

theorem standoff_raises_ReferenceError_witness:
  "draw (sampleCall\<lparr>fl_xaxis := Some (sampleAxis\<lparr>ax_title_standoff := Some 10\<rparr>)\<rparr>) =
     Inl ReferenceError \<and>
   (\<exists>out. draw sampleCall = Inr (Some out)) \<and>
   ax_title_standoff sampleAxis = None"
  using standoff_raises_ReferenceError
      [of "sampleCall\<lparr>fl_xaxis := Some (sampleAxis\<lparr>ax_title_standoff := Some 10\<rparr>)\<rparr>"
          "sampleAxis\<lparr>ax_title_standoff := Some 10\<rparr>"]
  by (simp add: draw_sampleCall) (simp add: sampleCall_def sampleLayout_def sampleAxis_def entersX_def axisSide_def)

section \<open>drawTitle\<close>

text \<open>
  What \<^verbatim>\<open>drawTitle\<close> gives the text element, in terms of the variables it reads: the
  transform is null without a \<^verbatim>\<open>transform\<close> object and otherwise the rotation about
  \<^verbatim>\<open>attributes.x\<close> and \<^verbatim>\<open>attributes.y\<close>, when \<open>rotate\<close> is truthy, followed by the
  translation by \<open>(0, offset)\<close>, when \<open>offset\<close> is truthy; the font family, the font size
  rounded to two decimals, the rgb fill and the opacity times that of the font colour.
\<close>

lemma drawTitle_gives:
  "ts_transform (drawTitle c) =
     (case transform c of None \<Rightarrow> None
      | Some t \<Rightarrow>
          Some ((if present (tr_rotate t)
                 then [Rotate (the (tr_rotate t)) (at_x (attributes c)) (at_y (attributes c))]
                 else []) @
                (if present (tr_offset t) then [Translate 0 (the (tr_offset t))] else [])))"
  "ts_font_family (drawTitle c) = fontFamily c"
  "ts_font_size (drawTitle c) = d3_round (fontSize c) 2"
  "ts_fill (drawTitle c) = Color_rgb (fontColor c)"
  "ts_opacity (drawTitle c) = opacity c * Color_opacity (fontColor c)"
  by (simp_all add: drawTitle_def strTranslate_def split: option.splits)

text \<open>
  C7. The call of \<^verbatim>\<open>drawTitle\<close> that \<^verbatim>\<open>draw\<close> makes reads \<^verbatim>\<open>options.transform\<close> and the
  title's font. The call that the cancel handler makes later does not: the y-axis branch
  has redeclared \<^verbatim>\<open>transform\<close> (line 544) and both branches have redeclared \<^verbatim>\<open>fontSize\<close>
  (lines 339, 492) in the scope of \<^verbatim>\<open>draw\<close>. For the sample call, which passes no
  \<^verbatim>\<open>options.transform\<close> and a title font of size 17, the first call leaves the transform
  null and the size 17; after a cancelled edit the title has \<^verbatim>\<open>rotate(-90,350,50)\<close> and the
  font size 14 of the y-axis title.
\<close>

theorem cancel_uses_branch_variables:
  "\<exists>out. draw sampleCall = Inr (Some out) \<and>
     transform (vars sampleCall) = None \<and>
     fontSize (vars sampleCall) = 17 \<and>
     ts_transform (out_el out) = None \<and> ts_font_size (out_el out) = 17 \<and>
     ts_transform (onCancel out) = Some [Rotate (- 90) 350 50] \<and>
     ts_font_size (onCancel out) = 14"
  by (simp add: draw_sampleCall onCancel_def drawTitle_def present_def d3_round_def)
     (simp add: sampleCall_def)

theorem cancel_uses_branch_variables_witness:
  "\<exists>out. draw sampleCall = Inr (Some out) \<and>
     ts_transform (onCancel out) \<noteq> ts_transform (out_el out) \<and>
     ts_font_size (onCancel out) \<noteq> ts_font_size (out_el out)"
  using cancel_uses_branch_variables by auto

section \<open>The glyph layer of a legend item\<close>

text \<open>
  C5, as the code has it. The box size enters through \<^verbatim>\<open>parseInt\<close>: box sizing is valid
  when \<^verbatim>\<open>parseInt(boxsizing.size)\<close> is a number that is at least 0 and \<^verbatim>\<open>legend._width\<close> is
  below \<^verbatim>\<open>fullLayout.width\<close>. When \<^verbatim>\<open>symbolplacement.aftertext\<close> is \<^verbatim>\<open>true\<close> the layer is
  translated horizontally by \<^verbatim>\<open>legend._width - legend.itemwidth - 2 * itemGap\<close>, less half
  of the parsed size when box sizing is valid; otherwise it is translated by half of the
  parsed size when box sizing is valid, and keeps its vertical-alignment transform when
  it is not.
\<close>

theorem layers_translation:
  "layersTransform itemGap gd legend d =
     (let size = parseInt (nestedFlag gd boxsizing);
          valid = ((\<exists>b. size = Some b \<and> 0 \<le> b) \<and> lg_width legend < sg_fullWidth gd)
      in if nestedFlag gd symbolplacement = JBool True
         then Some [Translate (lg_width legend - itemwidth legend - 2 * itemGap -
                                 (if valid then the size / 2 else 0)) 0]
         else if valid then Some [Translate (the size / 2) 0]
         else valignTransform legend d)"
  by (cases "parseInt (nestedFlag gd boxsizing)")
     (simp_all add: layersTransform_def isBoxSizingValid_def Let_def strTranslate_def)

theorem layers_translation_witness:
  "layersTransform 5 sampleStyleGd sampleLegend sampleItem = Some [Translate 154 0] \<and>
   layersTransform 5 (sampleStyleGd\<lparr>sg_legend := None\<rparr>) sampleLegend sampleItem =
     Some [Translate 0 (- 8)]"
  using layers_translation [of 5 sampleStyleGd sampleLegend sampleItem]
    layers_translation [of 5 "sampleStyleGd\<lparr>sg_legend := None\<rparr>" sampleLegend sampleItem]
  by (simp add: sampleStyleGd_def sampleLegend_def sampleItem_def sampleFlags_def nestedFlag_def
        valignTransform_def strTranslate_def Let_def)

text \<open>
  The sample legend has the box size 12.7, which \<^verbatim>\<open>parseInt\<close> reads as 12: the layer is
  moved by \<open>200 - 30 - 10 - 6 = 154\<close>, not by \<open>200 - 30 - 10 - 12.7 / 2\<close>.
\<close>

theorem layers_translation_counterexample:
  "nestedFlag sampleStyleGd boxsizing = JNum 12.7 \<and>
   nestedFlag sampleStyleGd symbolplacement = JBool True \<and>
   layersTransform 5 sampleStyleGd sampleLegend sampleItem = Some [Translate 154 0] \<and>
   lg_width sampleLegend - itemwidth sampleLegend - 2 * 5 - 12.7 / 2 \<noteq> (154 :: real)"
  by (simp add: layersTransform_def isBoxSizingValid_def sampleStyleGd_def sampleLegend_def
        sampleFlags_def nestedFlag_def strTranslate_def Let_def)

section \<open>The glyph of a spatial trace\<close>



section \<open>The legend object\<close>

lemma symbolstyle_itemheight:
  "nestedFlag gd symbolstyle = JStr v \<Longrightarrow> \<exists>ih. itemheightOf gd = Inr ih"
  by (auto simp: nestedFlag_def itemheightOf_def split: option.splits)

lemma styleLines_none:
  assumes "nestedFlag gd symbolstyle = JStr ''none''"
  shows "\<exists>x. styleLines gd iw legend d = Inr x \<and> lo_legend x = legend\<lparr>itemwidth := 0\<rparr>"
proof -
  from symbolstyle_itemheight [OF assms] obtain ih where "itemheightOf gd = Inr ih" ..
  with assms show ?thesis by (simp add: styleLines_def Let_def)
qed

lemma eachLines_none:
  assumes "nestedFlag gd symbolstyle = JStr ''none''" and "s \<noteq> []"
  shows "\<exists>xs. eachLines gd iw legend s = Inr (legend\<lparr>itemwidth := 0\<rparr>, xs) \<and>
     length xs = length s \<and> (\<forall>x \<in> set xs. lo_legend x = legend\<lparr>itemwidth := 0\<rparr>)"
  using assms(2)
proof (induction s arbitrary: legend)
  case Nil
  then show ?case by simp
next
  case (Cons d ds)
  from styleLines_none [OF assms(1)] obtain x where
    x: "styleLines gd iw legend d = Inr x" "lo_legend x = legend\<lparr>itemwidth := 0\<rparr>"
    by blast
  show ?case
  proof (cases "ds = []")
    case True
    with x show ?thesis by simp
  next
    case False
    from Cons.IH [OF False, of "legend\<lparr>itemwidth := 0\<rparr>"] obtain xs where
      xs: "eachLines gd iw (legend\<lparr>itemwidth := 0\<rparr>) ds = Inr (legend\<lparr>itemwidth := 0\<rparr>, xs)"
        "length xs = length ds" "\<forall>x \<in> set xs. lo_legend x = legend\<lparr>itemwidth := 0\<rparr>"
      by auto
    with x show ?thesis by simp
  qed
qed

lemma eachSpatial_ok:
  "itemheightOf gd = Inr ih \<Longrightarrow> \<exists>xs. eachSpatial gd s = Inr xs"
proof (induction s)
  case Nil
  show ?case by simp
next
  case (Cons d ds)
  then obtain xs where "eachSpatial gd ds = Inr xs" by auto
  with Cons.prems show ?case by (simp add: styleSpatial_def)
qed

lemma sample_symbolstyle: "nestedFlag sampleStyleGd symbolstyle = JStr ''none''"
  by (simp add: nestedFlag_def sampleStyleGd_def sampleFlags_def)

text \<open>
  C9. When \<^verbatim>\<open>symbolstyle.style\<close> is \<^verbatim>\<open>"none"\<close>, every run of \<^verbatim>\<open>styleLines\<close> returns the
  legend object with \<open>itemwidth\<close> set to 0 and every other field as it was. A call of
  \<^verbatim>\<open>style\<close> on at least one item therefore returns the legend object with \<open>itemwidth\<close> 0,
  and every item's \<^verbatim>\<open>styleLines\<close> left it so; the \<^verbatim>\<open>centerTransform\<close> of that call is the
  one computed from the \<open>itemwidth\<close> the call found; a later call of \<^verbatim>\<open>style\<close> with the
  returned object computes its \<^verbatim>\<open>centerTransform\<close> and its glyph layers from \<open>itemwidth\<close> 0.
\<close>

theorem styleLines_zeroes_itemwidth:
  assumes "nestedFlag gd symbolstyle = JStr ''none''"
  shows "(\<exists>x. styleLines gd (itemwidth legend) legend d = Inr x \<and>
              lo_legend x = legend\<lparr>itemwidth := 0\<rparr>) \<and>
         (s \<noteq> [] \<longrightarrow>
            (\<exists>out. style itemGap gd legend s = Inr out \<and>
               so_legend out = legend\<lparr>itemwidth := 0\<rparr> \<and>
               (\<forall>x \<in> set (so_lines out). lo_legend x = legend\<lparr>itemwidth := 0\<rparr>) \<and>
               so_centerTransform out = [Translate ((itemwidth legend + itemGap * 2) / 2) 0] \<and>
               (\<exists>out'. style itemGap gd (so_legend out) s' = Inr out' \<and>
                  so_centerTransform out' = [Translate ((0 + itemGap * 2) / 2) 0] \<and>
                  so_layers out' = map (layersTransform itemGap gd (legend\<lparr>itemwidth := 0\<rparr>)) s')))"
proof (intro conjI impI)
  show "\<exists>x. styleLines gd (itemwidth legend) legend d = Inr x \<and>
              lo_legend x = legend\<lparr>itemwidth := 0\<rparr>"
    by (rule styleLines_none [OF assms])
next
  assume ne: "s \<noteq> []"
  from symbolstyle_itemheight [OF assms] obtain ih where ih: "itemheightOf gd = Inr ih" ..
  from eachSpatial_ok [OF ih] obtain sp where sp: "eachSpatial gd s = Inr sp" ..
  from eachLines_none [OF assms ne] obtain xs where
    xs: "eachLines gd (itemwidth legend) legend s = Inr (legend\<lparr>itemwidth := 0\<rparr>, xs)"
        "\<forall>x \<in> set xs. lo_legend x = legend\<lparr>itemwidth := 0\<rparr>"
    by blast
  define out where "out = \<lparr>so_legend = legend\<lparr>itemwidth := 0\<rparr>,
      so_centerTransform = strTranslate ((itemwidth legend + itemGap * 2) / 2) 0,
      so_layers = map (layersTransform itemGap gd legend) s,
      so_spatial = sp, so_lines = xs,
      so_points = map (stylePoints gd (legend\<lparr>itemwidth := 0\<rparr>)) s\<rparr>"
  have run: "style itemGap gd legend s = Inr out"
    using sp xs(1) by (simp add: style_def Let_def out_def)
  from eachSpatial_ok [OF ih] obtain sp' where sp': "eachSpatial gd s' = Inr sp'" ..
  have "\<exists>l xs'. eachLines gd 0 (legend\<lparr>itemwidth := 0\<rparr>) s' = Inr (l, xs')"
  proof (cases "s' = []")
    case True
    then show ?thesis by simp
  next
    case False
    from eachLines_none [OF assms False, of 0 "legend\<lparr>itemwidth := 0\<rparr>"] show ?thesis by blast
  qed
  then obtain l xs' where xs': "eachLines gd 0 (legend\<lparr>itemwidth := 0\<rparr>) s' = Inr (l, xs')"
    by blast
  have next_call: "\<exists>out'. style itemGap gd (so_legend out) s' = Inr out' \<and>
                  so_centerTransform out' = [Translate ((0 + itemGap * 2) / 2) 0] \<and>
                  so_layers out' = map (layersTransform itemGap gd (legend\<lparr>itemwidth := 0\<rparr>)) s'"
    using sp' xs' by (simp add: style_def Let_def out_def strTranslate_def)
  have a: "so_legend out = legend\<lparr>itemwidth := 0\<rparr>" by (simp add: out_def)
  have b: "\<forall>x \<in> set (so_lines out). lo_legend x = legend\<lparr>itemwidth := 0\<rparr>"
    using xs(2) by (simp add: out_def)
  have c: "so_centerTransform out = [Translate ((itemwidth legend + itemGap * 2) / 2) 0]"
    by (simp add: out_def strTranslate_def)
  from run a b c next_call show "\<exists>out. style itemGap gd legend s = Inr out \<and>
               so_legend out = legend\<lparr>itemwidth := 0\<rparr> \<and>
               (\<forall>x \<in> set (so_lines out). lo_legend x = legend\<lparr>itemwidth := 0\<rparr>) \<and>
               so_centerTransform out = [Translate ((itemwidth legend + itemGap * 2) / 2) 0] \<and>
               (\<exists>out'. style itemGap gd (so_legend out) s' = Inr out' \<and>
                  so_centerTransform out' = [Translate ((0 + itemGap * 2) / 2) 0] \<and>
                  so_layers out' = map (layersTransform itemGap gd (legend\<lparr>itemwidth := 0\<rparr>)) s')"
    by blast
qed

theorem styleLines_zeroes_itemwidth_witness:
  "\<exists>out. style 5 sampleStyleGd sampleLegend [sampleItem, sampleItem] = Inr out \<and>
     itemwidth sampleLegend = 30 \<and>
     so_legend out = sampleLegend\<lparr>itemwidth := 0\<rparr> \<and>
     so_centerTransform out = [Translate 20 0] \<and>
     (\<exists>out'. style 5 sampleStyleGd (so_legend out) [sampleItem] = Inr out' \<and>
        so_centerTransform out' = [Translate 5 0])"
  using styleLines_zeroes_itemwidth [OF sample_symbolstyle,
      of sampleLegend sampleItem "[sampleItem, sampleItem]" 5 "[sampleItem]"]
  by (auto simp: sampleLegend_def)

section \<open>Hidden toggles\<close>



end
